theory Spec2Isabelle
  imports Main "HOL-Library.Product_Lexorder"
begin

section \<open>Shared JavaScript primitives\<close>

text \<open>
  A field of a JSON request body is absent (\<open>undefined\<close> after destructuring),
  \<open>null\<close>, or carries a value.
\<close>

datatype 'a js = Undefined | Null | Val 'a

text \<open>Truthiness of a string-valued field: \<open>undefined\<close>, \<open>null\<close> and \<open>""\<close> are falsy.\<close>

fun truthy :: "string js \<Rightarrow> bool" where
  "truthy Undefined = False"
| "truthy Null = False"
| "truthy (Val s) = (s \<noteq> [])"

text \<open>\<open>String.prototype.startsWith\<close>.\<close>

fun startsWith :: "string \<Rightarrow> string \<Rightarrow> bool" where
  "startsWith s [] = True"
| "startsWith [] (p # ps) = False"
| "startsWith (c # cs) (p # ps) = (c = p \<and> startsWith cs ps)"

text \<open>Decimal rendering of a non-negative integer (\<open>Number.prototype.toString\<close>).\<close>

definition digit_char :: "nat \<Rightarrow> char" where
  "digit_char d = ''0123456789'' ! d"

fun decimal :: "nat \<Rightarrow> string" where
  "decimal n = (if n < 10 then [digit_char n] else decimal (n div 10) @ [digit_char (n mod 10)])"

declare decimal.simps [simp del]

text \<open>
  \<open>String.prototype.split\<close> with a non-empty separator: \<open>break_at\<close> cuts a string
  at the first occurrence of the separator; \<open>js_split\<close> repeats it. The result always
  has a first piece (\<open>"".split(sep)\<close> is \<open>[""]\<close>).
\<close>

fun break_at :: "string \<Rightarrow> string \<Rightarrow> (string \<times> string) option" where
  "break_at sep [] = None"
| "break_at sep (c # cs) =
     (if startsWith (c # cs) sep then Some ([], drop (length sep) (c # cs))
      else map_option (\<lambda>(before, after). (c # before, after)) (break_at sep cs))"

lemma break_at_shorter:
  "break_at sep s = Some (before, after) \<Longrightarrow> sep \<noteq> [] \<Longrightarrow> length after < length s"
proof (induction s arbitrary: before)
  case Nil
  then show ?case by simp
next
  case (Cons c cs)
  show ?case
  proof (cases "startsWith (c # cs) sep")
    case True
    with Cons.prems show ?thesis by (cases sep) auto
  next
    case False
    with Cons.prems obtain b where "break_at sep cs = Some (b, after)"
      by (auto split: prod.splits)
    with Cons.IH [of b] Cons.prems(2) show ?thesis by simp
  qed
qed

function js_split :: "string \<Rightarrow> string \<Rightarrow> string list" where
  "js_split sep s =
     (if sep = [] then map (\<lambda>c. [c]) s
      else case break_at sep s of
             None \<Rightarrow> [s]
           | Some (before, after) \<Rightarrow> before # js_split sep after)"
  by pat_completeness auto
termination
  by (relation "measure (\<lambda>(sep, s). length s)") (auto dest: break_at_shorter)

declare js_split.simps [simp del]

text \<open>Array indexing: an index out of range reads \<open>undefined\<close>.\<close>

definition js_index :: "'a list \<Rightarrow> nat \<Rightarrow> 'a js" where
  "js_index xs i = (if i < length xs then Val (xs ! i) else Undefined)"

text \<open>
  \<open>String.prototype.trim\<close> on the ASCII white space and line terminators (the
  non-ASCII ones are not characters of this byte-string model).
\<close>

definition is_space :: "char \<Rightarrow> bool" where
  "is_space c = (c \<in> set [CHR '' '', CHR 0x09, CHR 0x0A, CHR 0x0B, CHR 0x0C, CHR 0x0D])"

definition trim :: "string \<Rightarrow> string" where
  "trim s = rev (dropWhile is_space (rev (dropWhile is_space s)))"

definition is_digit :: "char \<Rightarrow> bool" where
  "is_digit c = (c \<in> set ''0123456789'')"

definition digit_val :: "char \<Rightarrow> nat" where
  "digit_val c = of_char c - 48"

text \<open>
  \<open>parseInt(s, 10)\<close>: leading white space, an optional sign, then the longest run of
  digits; \<open>None\<close> is \<open>NaN\<close>. Exact below \<open>2^53\<close>, where a JavaScript number still is
  an integer.
\<close>

definition digits_val :: "string \<Rightarrow> nat" where
  "digits_val ds = foldl (\<lambda>n c. 10 * n + digit_val c) 0 ds"

definition parseInt :: "string \<Rightarrow> int option" where
  "parseInt s =
     (let t = dropWhile is_space s;
          (neg, u) = (case t of
                        c # r \<Rightarrow> if c = CHR ''-'' then (True, r)
                                 else if c = CHR ''+'' then (False, r) else (False, t)
                      | [] \<Rightarrow> (False, t));
          ds = takeWhile is_digit u
      in if ds = [] then None
         else Some (if neg then - int (digits_val ds) else int (digits_val ds)))"

text \<open>\<open>toString\<close> of a number that may be \<open>NaN\<close>.\<close>

definition number_toString :: "int option \<Rightarrow> string" where
  "number_toString n =
     (case n of None \<Rightarrow> ''NaN''
      | Some i \<Rightarrow> if i < 0 then ''-'' @ decimal (nat (- i)) else decimal (nat i))"

text \<open>\<open>s.padStart(n, '0')\<close>.\<close>

definition padStart0 :: "nat \<Rightarrow> string \<Rightarrow> string" where
  "padStart0 n s = replicate (n - length s) CHR ''0'' @ s"

text \<open>\<open>s.slice(0, -k)\<close>: the string without its last \<open>k\<close> characters.\<close>

definition slice_end :: "nat \<Rightarrow> string \<Rightarrow> string" where
  "slice_end k s = take (length s - k) s"

text \<open>
  Comparison of two strings with \<open><\<close> and \<open>>=\<close>: lexicographic on the code units.
\<close>

fun js_str_less :: "string \<Rightarrow> string \<Rightarrow> bool" where
  "js_str_less [] [] = False"
| "js_str_less [] (y # ys) = True"
| "js_str_less (x # xs) [] = False"
| "js_str_less (x # xs) (y # ys) =
     ((of_char x :: nat) < of_char y \<or> (x = y \<and> js_str_less xs ys))"

section \<open>OTP store: \<open>services/otpService.js\<close>\<close>

text \<open>
  \<open>otpStorage\<close> is a \<open>Map\<close> from the formatted phone number to
  \<open>{otp, expiresAt, attempts}\<close>. \<open>Date.now()\<close> is passed in as \<open>now\<close>
  (milliseconds).
\<close>

record otp_entry =
  otp :: string
  expiresAt :: nat
  attempts :: nat

type_synonym otp_store = "string \<rightharpoonup> otp_entry"

record verify_result =
  success :: bool
  message :: string

definition formatPhone :: "string \<Rightarrow> string" where
  "formatPhone phoneNumber =
     (if \<not> startsWith phoneNumber ''+'' then ''+'' @ phoneNumber else phoneNumber)"

text \<open>
  What \<open>sendWhatsAppOTP\<close>, \<open>sendSMSOTP\<close> and the test mode of \<open>sendOTP\<close> write before
  they deliver the generated \<open>code\<close>:
  \<open>otpStorage.set(formattedPhone, {otp, expiresAt: Date.now() + 5 * 60 * 1000, attempts: 0})\<close>.
\<close>

definition storeOTP :: "nat \<Rightarrow> otp_store \<Rightarrow> string \<Rightarrow> string \<Rightarrow> otp_store" where
  "storeOTP now otpStorage phoneNumber code =
     otpStorage(formatPhone phoneNumber \<mapsto>
       \<lparr>otp = code, expiresAt = now + 5 * 60 * 1000, attempts = 0\<rparr>)"

definition verifyOTP :: "nat \<Rightarrow> otp_store \<Rightarrow> string \<Rightarrow> string \<Rightarrow> verify_result \<times> otp_store" where
  "verifyOTP now otpStorage phoneNumber code =
     (let formattedPhone = formatPhone phoneNumber in
      case otpStorage formattedPhone of
        None \<Rightarrow> (\<lparr>success = False, message = ''OTP not found or expired''\<rparr>, otpStorage)
      | Some storedData \<Rightarrow>
          if now > expiresAt storedData then
            (\<lparr>success = False, message = ''OTP has expired''\<rparr>,
             otpStorage(formattedPhone := None))
          else if attempts storedData \<ge> 3 then
            (\<lparr>success = False, message = ''Maximum verification attempts exceeded''\<rparr>,
             otpStorage(formattedPhone := None))
          else if otp storedData = code then
            (\<lparr>success = True, message = ''OTP verified successfully''\<rparr>,
             otpStorage(formattedPhone := None))
          else
            (let storedData' = storedData\<lparr>attempts := attempts storedData + 1\<rparr> in
             (\<lparr>success = False,
               message = ''Invalid OTP. '' @ decimal (3 - attempts storedData') @ '' attempts remaining''\<rparr>,
              otpStorage(formattedPhone \<mapsto> storedData'))))"

text \<open>The outcomes of \<open>verifyOTP\<close>, by the message the source returns.\<close>

definition NotFound :: verify_result where
  "NotFound = \<lparr>success = False, message = ''OTP not found or expired''\<rparr>"

definition Expired :: verify_result where
  "Expired = \<lparr>success = False, message = ''OTP has expired''\<rparr>"

definition AttemptsExceeded :: verify_result where
  "AttemptsExceeded = \<lparr>success = False, message = ''Maximum verification attempts exceeded''\<rparr>"

definition Verified :: verify_result where
  "Verified = \<lparr>success = True, message = ''OTP verified successfully''\<rparr>"

definition Mismatch :: "nat \<Rightarrow> verify_result" where
  "Mismatch remaining =
     \<lparr>success = False, message = ''Invalid OTP. '' @ decimal remaining @ '' attempts remaining''\<rparr>"

section \<open>Appointment time normalisation: \<open>POST /api/user/appointments\<close>\<close>

text \<open>The pattern \<open>/^\d{2}:\d{2}(:\d{2})?$/\<close> of \<open>extractStartTime\<close>.\<close>

fun canonical_time :: "string \<Rightarrow> bool" where
  "canonical_time (a # b # c # d # e # rest) =
     (is_digit a \<and> is_digit b \<and> c = CHR '':'' \<and> is_digit d \<and> is_digit e \<and>
      (case rest of
         [] \<Rightarrow> True
       | [f, g, h] \<Rightarrow> f = CHR '':'' \<and> is_digit g \<and> is_digit h
       | _ \<Rightarrow> False))"
| "canonical_time _ = False"

text \<open>
  \<open>convertTo24Hour\<close>: \<open>[time, modifier] = time12h.trim().split(' ')\<close>, then
  \<open>[hours, minutes] = time.split(':')\<close>. A missing \<open>minutes\<close> prints as
  \<open>undefined\<close> in the template string. \<open>hours\<close> becomes a number in the \<open>PM\<close>
  branch only.
\<close>

definition convertTo24Hour :: "string \<Rightarrow> string" where
  "convertTo24Hour time12h =
     (let parts = js_split '' '' (trim time12h);
          time = hd parts;
          modifier = js_index parts 1;
          hm = js_split '':'' time;
          hours = hd hm;
          minutes = js_index hm 1;
          hours1 = (if hours = ''12'' then ''00'' else hours);
          hours2 = (if modifier = Val ''PM''
                    then number_toString (map_option (\<lambda>n. n + 12) (parseInt hours1))
                    else hours1)
      in padStart0 2 hours2 @ '':'' @
         (case minutes of Val m \<Rightarrow> m | _ \<Rightarrow> ''undefined'') @ '':00'')"

definition extractStartTime :: "string \<Rightarrow> string" where
  "extractStartTime timeInput =
     (if timeInput = [] then timeInput
      else if canonical_time timeInput then timeInput
      else convertTo24Hour (hd (js_split '' - '' timeInput)))"

section \<open>Availability registry: the \<open>available_time_slots\<close> and \<open>available_dates\<close> tables\<close>

text \<open>
  Rows as the schema declares them. A \<open>DATE\<close> is (year, month, day), a \<open>TIME\<close> is
  seconds since midnight, \<open>DECIMAL(10,2)\<close> is an amount in hundredths; a nullable
  column is an \<open>option\<close>. Both tables share the columns \<open>id\<close>, \<open>date\<close>,
  \<open>service_category_id\<close> and \<open>is_available\<close>.
\<close>

type_synonym sql_date = "nat \<times> nat \<times> nat"

record avail_row =
  row_id :: nat
  date :: sql_date
  service_category_id :: "nat option"
  is_available :: "bool option"

record time_slot = avail_row +
  start_time :: nat
  end_time :: nat
  extra_price :: "int option"

record available_date = avail_row +
  max_appointments :: "int option"

text \<open>
  The part of the database the time-slot handlers read and write: the table, its
  \<open>AUTO_INCREMENT\<close> counter, and the ids of \<open>service_categories\<close> (the foreign key
  of \<open>service_category_id\<close>).
\<close>

record slots_db =
  available_time_slots :: "time_slot list"
  next_slot_id :: nat
  service_categories :: "nat list"

text \<open>\<open>timeRegex = /^([01]?[0-9]|2[0-3]):[0-5][0-9]$/\<close>.\<close>

fun timeRegex :: "string \<Rightarrow> bool" where
  "timeRegex [h, c, m1, m2] =
     (is_digit h \<and> c = CHR '':'' \<and> m1 \<in> set ''012345'' \<and> is_digit m2)"
| "timeRegex [h1, h2, c, m1, m2] =
     (((h1 \<in> set ''01'' \<and> is_digit h2) \<or> (h1 = CHR ''2'' \<and> h2 \<in> set ''0123'')) \<and>
      c = CHR '':'' \<and> m1 \<in> set ''012345'' \<and> is_digit m2)"
| "timeRegex _ = False"

text \<open>
  The engine's reading of a time text as a \<open>TIME\<close>: \<open>'H:MM'\<close> and \<open>'HH:MM'\<close> are hours and
  minutes. Only texts that passed \<open>timeRegex\<close> (and, in the update, the empty text) reach
  the engine; any other text is refused (\<open>None\<close>), as strict SQL mode does.
\<close>

definition sql_time :: "string \<Rightarrow> nat option" where
  "sql_time s =
     (if timeRegex s then
        (case js_split '':'' s of
           [h, m] \<Rightarrow> Some ((digits_val h * 60 + digits_val m) * 60)
         | _ \<Rightarrow> None)
      else None)"

text \<open>A \<open>TIME\<close> column as the driver hands it to JavaScript: the text \<open>'HH:MM:SS'\<close>.\<close>

definition time_text :: "nat \<Rightarrow> string" where
  "time_text t =
     padStart0 2 (decimal (t div 3600)) @ '':'' @
     padStart0 2 (decimal (t div 60 mod 60)) @ '':'' @
     padStart0 2 (decimal (t mod 60))"

text \<open>A request body of the two time-slot handlers, after destructuring.\<close>

record slot_body =
  b_start_time :: "string js"
  b_end_time :: "string js"
  b_is_available :: "bool js"
  b_extra_price :: "int js"
  b_date :: "string js"
  b_service_category_id :: "nat js"

datatype slot_reply =
    Created nat
  | Updated time_slot
  | Failed nat string

text \<open>
  The driver's \<open>execute\<close> refuses a bind parameter that is \<open>undefined\<close> (a
  \<open>TypeError\<close>, which the handlers' \<open>catch\<close> turns into status 500); \<open>null\<close> is SQL
  \<open>NULL\<close>.
\<close>

fun defined :: "'a js \<Rightarrow> bool" where
  "defined Undefined = False"
| "defined _ = True"

fun sql_value :: "'a js \<Rightarrow> 'a option" where
  "sql_value (Val v) = Some v"
| "sql_value _ = None"

text \<open>
  The three tests of the overlap queries, between a stored slot and the interval
  \<open>[s, e)\<close> of the request:
  \<open>(start_time <= s AND end_time > s) OR (start_time < e AND end_time >= e) OR
  (start_time >= s AND end_time <= e)\<close>.
\<close>

definition overlap_tests :: "time_slot \<Rightarrow> nat \<Rightarrow> nat \<Rightarrow> bool" where
  "overlap_tests r s e =
     ((start_time r \<le> s \<and> end_time r > s) \<or>
      (start_time r < e \<and> end_time r \<ge> e) \<or>
      (start_time r \<ge> s \<and> end_time r \<le> e))"

text \<open>
  \<open>service_category_id = ? OR (service_category_id IS NULL AND ? IS NULL)\<close>: an
  equality with \<open>NULL\<close> on either side is not true.
\<close>

definition same_category :: "nat option \<Rightarrow> nat option \<Rightarrow> bool" where
  "same_category col param =
     ((col \<noteq> None \<and> col = param) \<or> (col = None \<and> param = None))"

text \<open>
  Constraints of the table: \<open>UNIQUE KEY unique_time_slot (date, start_time, end_time)\<close>
  and the foreign key of \<open>service_category_id\<close>.
\<close>

definition unique_time_slot_free :: "time_slot list \<Rightarrow> sql_date \<Rightarrow> nat \<Rightarrow> nat \<Rightarrow> bool" where
  "unique_time_slot_free rows d s e =
     (\<not> list_ex (\<lambda>r. date r = d \<and> start_time r = s \<and> end_time r = e) rows)"

definition category_exists :: "slots_db \<Rightarrow> nat option \<Rightarrow> bool" where
  "category_exists db c = (case c of None \<Rightarrow> True | Some k \<Rightarrow> k \<in> set (service_categories db))"

text \<open>
  \<open>POST /api/admin/available-time-slots\<close>. \<open>to_date\<close> is the engine's reading of the
  request's date text as a \<open>DATE\<close> (\<open>None\<close>: not a date). The comparison
  \<open>start_time >= end_time\<close> is JavaScript's, on the two strings.
\<close>

definition post_admin_available_time_slots ::
  "(string \<Rightarrow> sql_date option) \<Rightarrow> slots_db \<Rightarrow> slot_body \<Rightarrow> slots_db \<times> slot_reply" where
  "post_admin_available_time_slots to_date db body =
     (let extra = (case b_extra_price body of Undefined \<Rightarrow> Val 0 | x \<Rightarrow> x) in
      if \<not> (truthy (b_start_time body) \<and> truthy (b_end_time body) \<and> truthy (b_date body)) then
        (db, Failed 400 ''Start time, end time, and date are required'')
      else
        (case (b_start_time body, b_end_time body, b_date body) of
           (Val st, Val en, Val dt) \<Rightarrow>
             if \<not> (timeRegex st \<and> timeRegex en) then
               (db, Failed 400 ''Invalid time format. Use HH:MM format'')
             else if \<not> js_str_less st en then
               (db, Failed 400 ''End time must be after start time'')
             else if \<not> defined (b_service_category_id body) then
               (db, Failed 500 ''Internal server error'')
             else
               (case (sql_time st, sql_time en) of
                  (Some s, Some e) \<Rightarrow>
                    let cat = sql_value (b_service_category_id body);
                        overlapping =
                          filter (\<lambda>r. Some (date r) = to_date dt \<and> is_available r = Some True \<and>
                                       same_category (service_category_id r) cat \<and>
                                       overlap_tests r s e)
                                 (available_time_slots db)
                    in if overlapping \<noteq> [] then
                         (db, Failed 400 ''Time slot overlaps with existing available slot'')
                       else if \<not> defined (b_is_available body) then
                         (db, Failed 500 ''Internal server error'')
                       else
                         (case to_date dt of
                            None \<Rightarrow> (db, Failed 500 ''Internal server error'')
                          | Some d \<Rightarrow>
                              if unique_time_slot_free (available_time_slots db) d s e \<and>
                                 category_exists db cat
                              then
                                (db\<lparr>available_time_slots := available_time_slots db @
                                       [\<lparr>row_id = next_slot_id db, date = d,
                                         service_category_id = cat,
                                         is_available = sql_value (b_is_available body),
                                         start_time = s, end_time = e,
                                         extra_price = sql_value extra\<rparr>],
                                    next_slot_id := next_slot_id db + 1\<rparr>,
                                 Created (next_slot_id db))
                              else (db, Failed 500 ''Internal server error''))
                | _ \<Rightarrow> (db, Failed 500 ''Internal server error''))
         | _ \<Rightarrow> (db, Failed 400 ''Start time, end time, and date are required'')))"

text \<open>\<open>a || b\<close> on a string field with a string fallback.\<close>

fun js_or :: "string js \<Rightarrow> string \<Rightarrow> string" where
  "js_or (Val s) d = (if s \<noteq> [] then s else d)"
| "js_or _ d = d"

text \<open>\<open>COALESCE(?, column)\<close>.\<close>

fun coalesce :: "'a option \<Rightarrow> 'a option \<Rightarrow> 'a option" where
  "coalesce (Some v) col = Some v"
| "coalesce None col = col"

text \<open>
  The pool is created with neither \<open>dateStrings\<close> nor \<open>timezone\<close>. The driver then hands
  a \<open>DATE\<close> column to JavaScript as the \<open>Date\<close> \<open>new Date(y, m - 1, d)\<close> of the zone of
  the server process, and binds a \<open>Date\<close> parameter as the \<open>DATETIME\<close> of its local
  fields. \<open>bind_date d\<close>, a parameter of the update handler, is that \<open>DATETIME\<close> for the
  \<open>Date\<close> made of the \<open>DATE\<close> \<open>d\<close>: the local day and the seconds of that day. It is
  \<open>(d, 0)\<close> when the day \<open>d\<close> has a midnight in the zone (\<open>local_midnight\<close>); where the
  clocks skip midnight, \<open>new Date\<close> gives a later time of the day. The engine compares a
  \<open>DATE\<close> column with a \<open>DATETIME\<close> as the \<open>DATETIME\<close> at \<open>00:00:00\<close> of the column's
  day.
\<close>

definition date_eq_datetime :: "sql_date \<Rightarrow> sql_date \<times> nat \<Rightarrow> bool" where
  "date_eq_datetime col param = ((col, 0) = param)"


text \<open>
  \<open>PUT /api/admin/available-time-slots/:id\<close>. \<open>currentSlot\<close> is the row of
  \<open>SELECT *\<close>: \<open>currentSlot.start_time\<close> and \<open>currentSlot.end_time\<close> are the driver's
  \<open>'HH:MM:SS'\<close> texts and \<open>currentSlot.date\<close> is the driver's \<open>Date\<close>, which the overlap
  query binds to \<open>date = ?\<close>. The overlap query has no category condition. In the
  \<open>UPDATE\<close>, four columns go through \<open>COALESCE\<close> and \<open>service_category_id = ?\<close> does
  not. The row exists when the \<open>UPDATE\<close> runs, so \<open>affectedRows\<close> is not 0.
\<close>

definition put_admin_available_time_slots ::
  "(sql_date \<Rightarrow> sql_date \<times> nat) \<Rightarrow> slots_db \<Rightarrow> nat \<Rightarrow> slot_body \<Rightarrow> slots_db \<times> slot_reply" where
  "put_admin_available_time_slots bind_date db slot body =
     (case find (\<lambda>r. row_id r = slot) (available_time_slots db) of
        None \<Rightarrow> (db, Failed 404 ''Time slot not found'')
      | Some currentSlot \<Rightarrow>
          let refusal =
            (if truthy (b_start_time body) \<or> truthy (b_end_time body) then
               (let newStartTime = js_or (b_start_time body) (time_text (start_time currentSlot));
                    newEndTime = js_or (b_end_time body) (time_text (end_time currentSlot))
                in if \<not> (timeRegex newStartTime \<and> timeRegex newEndTime) then
                     Some (Failed 400 ''Invalid time format. Use HH:MM format'')
                   else if \<not> js_str_less newStartTime newEndTime then
                     Some (Failed 400 ''End time must be after start time'')
                   else
                     (case (sql_time newStartTime, sql_time newEndTime) of
                        (Some s, Some e) \<Rightarrow>
                          if list_ex (\<lambda>r. row_id r \<noteq> slot \<and>
                                          date_eq_datetime (date r) (bind_date (date currentSlot)) \<and>
                                          is_available r = Some True \<and> overlap_tests r s e)
                                     (available_time_slots db)
                          then Some (Failed 400 ''Time slot overlaps with existing available slot'')
                          else None
                      | _ \<Rightarrow> Some (Failed 500 ''Internal server error'')))
             else None)
          in case refusal of
               Some reply \<Rightarrow> (db, reply)
             | None \<Rightarrow>
                 if \<not> (defined (b_start_time body) \<and> defined (b_end_time body) \<and>
                        defined (b_is_available body) \<and> defined (b_extra_price body) \<and>
                        defined (b_service_category_id body)) then
                   (db, Failed 500 ''Internal server error'')
                 else
                   (case (case b_start_time body of Val s \<Rightarrow> sql_time s
                                                 | _ \<Rightarrow> Some (start_time currentSlot),
                          case b_end_time body of Val s \<Rightarrow> sql_time s
                                               | _ \<Rightarrow> Some (end_time currentSlot)) of
                      (Some s, Some e) \<Rightarrow>
                        let cat = sql_value (b_service_category_id body);
                            updated = currentSlot
                              \<lparr>start_time := s, end_time := e,
                               is_available :=
                                 coalesce (sql_value (b_is_available body)) (is_available currentSlot),
                               extra_price :=
                                 coalesce (sql_value (b_extra_price body)) (extra_price currentSlot),
                               service_category_id := cat\<rparr>
                        in if unique_time_slot_free
                                (filter (\<lambda>r. row_id r \<noteq> slot) (available_time_slots db))
                                (date currentSlot) s e \<and>
                              category_exists db cat
                           then
                             (db\<lparr>available_time_slots :=
                                   map (\<lambda>r. if row_id r = slot then updated else r)
                                       (available_time_slots db)\<rparr>,
                              Updated updated)
                           else (db, Failed 500 ''Internal server error'')
                    | _ \<Rightarrow> (db, Failed 500 ''Internal server error'')))"

text \<open>
  The invariant of the specification: two intervals overlap when each starts before the
  other ends, and no two available slots of one date and one category scope overlap.
\<close>

definition overlaps :: "time_slot \<Rightarrow> time_slot \<Rightarrow> bool" where
  "overlaps a b = (start_time a < end_time b \<and> start_time b < end_time a)"


text \<open>
  A concrete reading of date texts, for the examples: the canonical \<open>YYYY-MM-DD\<close>.
\<close>

definition iso_date :: "string \<Rightarrow> sql_date option" where
  "iso_date s =
     (case s of
        [y1, y2, y3, y4, d1, m1, m2, d2, a1, a2] \<Rightarrow>
          if list_all is_digit [y1, y2, y3, y4, m1, m2, a1, a2] \<and> d1 = CHR ''-'' \<and> d2 = CHR ''-''
          then Some (digits_val [y1, y2, y3, y4], digits_val [m1, m2], digits_val [a1, a2])
          else None
      | _ \<Rightarrow> None)"

subsection \<open>Example data\<close>

definition slot_0900_0930 :: time_slot where
  "slot_0900_0930 =
     \<lparr>row_id = 1, date = (2025, 3, 10), service_category_id = None, is_available = Some True,
      start_time = 32400, end_time = 34200, extra_price = Some 0\<rparr>"

definition one_slot_db :: slots_db where
  "one_slot_db =
     \<lparr>available_time_slots = [slot_0900_0930], next_slot_id = 2, service_categories = [1, 2]\<rparr>"

definition empty_slots_db :: slots_db where
  "empty_slots_db = \<lparr>available_time_slots = [], next_slot_id = 1, service_categories = [1, 2]\<rparr>"

definition create_body :: "string \<Rightarrow> string \<Rightarrow> bool \<Rightarrow> nat js \<Rightarrow> slot_body" where
  "create_body st en avail cat =
     \<lparr>b_start_time = Val st, b_end_time = Val en, b_is_available = Val avail,
      b_extra_price = Val 0, b_date = Val ''2025-03-10'', b_service_category_id = cat\<rparr>"

definition update_body :: "string js \<Rightarrow> string js \<Rightarrow> bool js \<Rightarrow> nat js \<Rightarrow> slot_body" where
  "update_body st en avail cat =
     \<lparr>b_start_time = st, b_end_time = en, b_is_available = avail,
      b_extra_price = Null, b_date = Undefined, b_service_category_id = cat\<rparr>"








section \<open>Public listings: \<open>GET /api/available-dates\<close> and \<open>GET /api/available-time-slots\<close>\<close>

text \<open>
  The category condition both handlers add to their query. \<open>categoryId\<close> is the query
  parameter (\<open>None\<close>: not given). \<open>sql_eq\<close> is the engine's comparison
  \<open>service_category_id = ?\<close> of an \<open>INT\<close> column with the parameter's text.
  \<^verbatim>\<open>
    if (categoryId) {
      if (categoryId === 'null' || categoryId === '') { ... IS NULL }
      else { ... = ? }
    }
  \<close>
\<close>

definition category_condition ::
  "(nat \<Rightarrow> string \<Rightarrow> bool) \<Rightarrow> string option \<Rightarrow> nat option \<Rightarrow> bool" where
  "category_condition sql_eq categoryId col =
     (case categoryId of
        None \<Rightarrow> True
      | Some c \<Rightarrow>
          if c \<noteq> [] then
            (if c = ''null'' \<or> c = [] then col = None
             else (case col of None \<Rightarrow> False | Some k \<Rightarrow> sql_eq k c))
          else True)"

text \<open>
  \<open>GET /api/available-dates\<close>: \<open>is_available = TRUE AND date >= CURDATE()\<close>, the
  category condition, \<open>ORDER BY date ASC\<close>. \<open>today\<close> is \<open>CURDATE()\<close>. The joined
  category name and the formatted copies of the date are left out of the rows.
\<close>

definition get_available_dates ::
  "(nat \<Rightarrow> string \<Rightarrow> bool) \<Rightarrow> available_date list \<Rightarrow> sql_date \<Rightarrow> string option \<Rightarrow>
   available_date list" where
  "get_available_dates sql_eq available_dates today categoryId =
     sort_key date
       (filter (\<lambda>r. is_available r = Some True \<and> today \<le> date r \<and>
                    category_condition sql_eq categoryId (service_category_id r))
               available_dates)"

text \<open>
  \<open>GET /api/available-time-slots\<close>: the date is required; of a date-time text only the
  part before \<open>T\<close> is used; \<open>date = ? AND is_available = 1\<close>, the category condition,
  \<open>ORDER BY start_time ASC\<close>.
\<close>

definition get_available_time_slots ::
  "(string \<Rightarrow> sql_date option) \<Rightarrow> (nat \<Rightarrow> string \<Rightarrow> bool) \<Rightarrow> time_slot list \<Rightarrow>
   string option \<Rightarrow> string option \<Rightarrow> (nat \<times> string) + time_slot list" where
  "get_available_time_slots to_date sql_eq slots date_param categoryId =
     (case date_param of
        None \<Rightarrow> Inl (400, ''Date parameter is required'')
      | Some dt \<Rightarrow>
          if dt = [] then Inl (400, ''Date parameter is required'')
          else
            let dateOnly = (if CHR ''T'' \<in> set dt then hd (js_split ''T'' dt) else dt)
            in Inr (sort_key start_time
                      (filter (\<lambda>r. Some (date r) = to_date dateOnly \<and> is_available r = Some True \<and>
                                   category_condition sql_eq categoryId (service_category_id r))
                              slots)))"

subsection \<open>Example data\<close>

definition general_date :: available_date where
  "general_date =
     \<lparr>row_id = 1, date = (2025, 3, 10), service_category_id = None, is_available = Some True,
      max_appointments = Some 10\<rparr>"

definition category_date :: available_date where
  "category_date =
     \<lparr>row_id = 2, date = (2025, 3, 11), service_category_id = Some 1, is_available = Some True,
      max_appointments = Some 10\<rparr>"

definition category_slot :: time_slot where
  "category_slot =
     \<lparr>row_id = 2, date = (2025, 3, 10), service_category_id = Some 1, is_available = Some True,
      start_time = 36000, end_time = 37800, extra_price = Some 0\<rparr>"

section \<open>Appointments and payments\<close>

text \<open>
  The columns of \<open>appointments\<close> and \<open>payments\<close> that the handlers below read or write;
  the other columns (service, location, price, notes and so on) are never touched by
  them. \<open>status\<close> is the \<open>ENUM\<close>'s text.
\<close>

record appointment =
  appt_id :: nat
  user_id :: nat
  status :: string
  appointment_date :: sql_date
  appointment_time :: nat

record payment =
  payment_id :: string
  payment_status :: "string option"

record pay_db =
  payments :: "payment list"
  appointments :: "appointment list"

definition appointment_statuses :: "string list" where
  "appointment_statuses = [''pending'', ''confirmed'', ''in-progress'', ''completed'', ''cancelled'']"

definition payment_statuses :: "string list" where
  "payment_statuses = [''pending'', ''completed'', ''failed'', ''cancelled'']"

text \<open>
  \<open>s.replace(pattern, replacement)\<close> with a string pattern: the first occurrence only.
\<close>

definition js_replace :: "string \<Rightarrow> string \<Rightarrow> string \<Rightarrow> string" where
  "js_replace pattern replacement s =
     (case break_at pattern s of
        None \<Rightarrow> s
      | Some (before, after) \<Rightarrow> before @ replacement @ after)"

text \<open>
  \<open>UPDATE appointments SET status = ? WHERE id = ?\<close>. The id parameter is a text;
  \<open>sql_eq\<close> is the engine's comparison of the \<open>INT\<close> column \<open>id\<close> with it.
\<close>

definition update_appointment_status ::
  "(nat \<Rightarrow> string \<Rightarrow> bool) \<Rightarrow> appointment list \<Rightarrow> string \<Rightarrow> string \<Rightarrow> appointment list" where
  "update_appointment_status sql_eq rows new_status id_text =
     map (\<lambda>a. if sql_eq (appt_id a) id_text then a\<lparr>status := new_status\<rparr> else a) rows"

text \<open>
  \<open>UPDATE payments SET status = ?, updated_at = NOW() WHERE payment_id = ?\<close>. A text
  that is not a member of the \<open>ENUM\<close> is refused when a row is to be written (strict SQL
  mode); \<open>NULL\<close> as \<open>payment_id\<close> matches no row.
\<close>

definition update_payment_status ::
  "payment list \<Rightarrow> string option \<Rightarrow> string option \<Rightarrow> payment list option" where
  "update_payment_status rows new_status pid =
     (let hit = (\<lambda>r. Some (payment_id r) = pid) in
      if list_ex hit rows \<and> \<not> (case new_status of None \<Rightarrow> True | Some s \<Rightarrow> s \<in> set payment_statuses)
      then None
      else Some (map (\<lambda>r. if hit r then r\<lparr>payment_status := new_status\<rparr> else r) rows))"

record webhook_body =
  w_payment_id :: "string js"
  w_status :: "string js"
  w_order_id :: "string js"

text \<open>\<open>POST /api/payments/ziina/webhook\<close>.\<close>

definition post_payments_ziina_webhook ::
  "(nat \<Rightarrow> string \<Rightarrow> bool) \<Rightarrow> pay_db \<Rightarrow> webhook_body \<Rightarrow> pay_db \<times> nat \<times> string" where
  "post_payments_ziina_webhook sql_eq db body =
     (if \<not> (defined (w_status body) \<and> defined (w_payment_id body)) then
        (db, 500, ''Internal server error'')
      else
        (case update_payment_status (payments db) (sql_value (w_status body))
                (sql_value (w_payment_id body)) of
           None \<Rightarrow> (db, 500, ''Internal server error'')
         | Some payments' \<Rightarrow>
             let db1 = db\<lparr>payments := payments'\<rparr>;
                 db2 = (if w_status body = Val ''completed'' \<and> truthy (w_order_id body) then
                          (case w_order_id body of
                             Val order_id \<Rightarrow>
                               let appointmentId = js_replace ''appointment_'' '''' order_id
                               in db1\<lparr>appointments :=
                                        update_appointment_status sql_eq (appointments db1)
                                          ''confirmed'' appointmentId\<rparr>
                           | _ \<Rightarrow> db1)
                        else db1)
             in (db2, 200, ''Webhook processed successfully'')))"

text \<open>
  \<open>PUT /api/user/appointments/:id\<close>. The statement text is concatenated from the fields
  of the body that are truthy, and its last two characters are removed.
\<close>

record appointment_patch =
  p_status :: "string js"
  p_appointment_date :: "string js"
  p_appointment_time :: "string js"

definition field_clause :: "string \<Rightarrow> string js \<Rightarrow> string \<times> string list" where
  "field_clause column v =
     (case v of Val s \<Rightarrow> if s \<noteq> [] then (column @ '' = ?, '', [s]) else ([], [])
      | _ \<Rightarrow> ([], []))"

definition updateQuery :: "appointment_patch \<Rightarrow> string" where
  "updateQuery body =
     slice_end 2
       (''UPDATE appointments SET '' @
        fst (field_clause ''status'' (p_status body)) @
        fst (field_clause ''appointment_date'' (p_appointment_date body)) @
        fst (field_clause ''appointment_time'' (p_appointment_time body)))
     @ '' WHERE id = ? AND user_id = ?''"

definition updateValues :: "appointment_patch \<Rightarrow> string list" where
  "updateValues body =
     snd (field_clause ''status'' (p_status body)) @
     snd (field_clause ''appointment_date'' (p_appointment_date body)) @
     snd (field_clause ''appointment_time'' (p_appointment_time body))"

text \<open>
  The engine's reading of the statement texts this handler can produce:
  \<open>UPDATE appointments SET <column> = ?, ... WHERE id = ? AND user_id = ?\<close> with at least
  one assignment to a column of the table. The result is the list of assigned columns;
  \<open>None\<close> is a syntax error.
\<close>

definition assigned_column :: "string \<Rightarrow> string option" where
  "assigned_column clause =
     (case break_at '' = ?'' clause of
        Some (column, []) \<Rightarrow>
          if column \<in> set [''status'', ''appointment_date'', ''appointment_time'']
          then Some column else None
      | _ \<Rightarrow> None)"

definition parse_update :: "string \<Rightarrow> string list option" where
  "parse_update q =
     (if startsWith q ''UPDATE appointments SET '' then
        (case break_at '' WHERE '' (drop (length ''UPDATE appointments SET '') q) of
           Some (assignments, condition) \<Rightarrow>
             if condition = ''id = ? AND user_id = ?'' then
               (let columns = map assigned_column (js_split '', '' assignments)
                in if list_all (\<lambda>c. c \<noteq> None) columns then Some (map the columns) else None)
             else None
         | None \<Rightarrow> None)
      else None)"

text \<open>
  One assignment of the \<open>UPDATE\<close>. \<open>to_date\<close> and \<open>to_time\<close> are the engine's readings
  of a text as \<open>DATE\<close> and as \<open>TIME\<close>; a text the column does not take is an error
  (\<open>None\<close>).
\<close>

definition assign_column ::
  "(string \<Rightarrow> sql_date option) \<Rightarrow> (string \<Rightarrow> nat option) \<Rightarrow> string \<times> string \<Rightarrow>
   appointment \<Rightarrow> appointment option" where
  "assign_column to_date to_time cv a =
     (let (column, v) = cv in
      if column = ''status'' then
        (if v \<in> set appointment_statuses then Some (a\<lparr>status := v\<rparr>) else None)
      else if column = ''appointment_date'' then
        map_option (\<lambda>d. a\<lparr>appointment_date := d\<rparr>) (to_date v)
      else
        map_option (\<lambda>t. a\<lparr>appointment_time := t\<rparr>) (to_time v))"

fun assign_columns ::
  "(string \<Rightarrow> sql_date option) \<Rightarrow> (string \<Rightarrow> nat option) \<Rightarrow> (string \<times> string) list \<Rightarrow>
   appointment \<Rightarrow> appointment option" where
  "assign_columns to_date to_time [] a = Some a"
| "assign_columns to_date to_time (cv # cvs) a =
     (case assign_column to_date to_time cv a of
        None \<Rightarrow> None
      | Some a' \<Rightarrow> assign_columns to_date to_time cvs a')"

text \<open>
  The handler. \<open>appointment\<close> is the \<open>:id\<close> of the URL, \<open>user\<close> is \<open>req.user.id\<close>.
  Every error of \<open>pool.execute\<close> is caught and answered with status 500; the statement
  is atomic, so a failed \<open>UPDATE\<close> leaves the table as it was.
\<close>

definition put_user_appointments ::
  "(nat \<Rightarrow> string \<Rightarrow> bool) \<Rightarrow> (string \<Rightarrow> sql_date option) \<Rightarrow> (string \<Rightarrow> nat option) \<Rightarrow>
   appointment list \<Rightarrow> string \<Rightarrow> nat \<Rightarrow> appointment_patch \<Rightarrow> appointment list \<times> nat \<times> string" where
  "put_user_appointments sql_eq to_date to_time rows appointment user body =
     (let mine = (\<lambda>a. sql_eq (appt_id a) appointment \<and> user_id a = user) in
      if filter mine rows = [] then (rows, 404, ''Appointment not found or not authorized'')
      else
        (case parse_update (updateQuery body) of
           None \<Rightarrow> (rows, 500, ''Server error'')
         | Some columns \<Rightarrow>
             let written =
               map (\<lambda>a. if mine a
                         then assign_columns to_date to_time (zip columns (updateValues body)) a
                         else Some a) rows
             in if list_all (\<lambda>r. r \<noteq> None) written
                then (map the written, 200, ''Appointment updated successfully'')
                else (rows, 500, ''Server error'')))"

subsection \<open>Example data\<close>

text \<open>A comparison that reads the parameter as the decimal text of the id.\<close>

definition decimal_eq :: "nat \<Rightarrow> string \<Rightarrow> bool" where
  "decimal_eq k s = (decimal k = s)"

definition appointment_42 :: appointment where
  "appointment_42 =
     \<lparr>appt_id = 42, user_id = 7, status = ''cancelled'', appointment_date = (2025, 3, 10),
      appointment_time = 50400\<rparr>"

definition appointment_4 :: appointment where
  "appointment_4 =
     \<lparr>appt_id = 4, user_id = 7, status = ''pending'', appointment_date = (2025, 3, 11),
      appointment_time = 32400\<rparr>"

definition example_pay_db :: pay_db where
  "example_pay_db =
     \<lparr>payments = [\<lparr>payment_id = ''pi_1'', payment_status = Some ''pending''\<rparr>],
      appointments = [appointment_4, appointment_42]\<rparr>"

definition completed_webhook :: "string \<Rightarrow> webhook_body" where
  "completed_webhook order_id =
     \<lparr>w_payment_id = Val ''pi_1'', w_status = Val ''completed'', w_order_id = Val order_id\<rparr>"

definition empty_patch :: appointment_patch where
  "empty_patch = \<lparr>p_status = Undefined, p_appointment_date = Undefined, p_appointment_time = Undefined\<rparr>"

section \<open>Appointment dates: written by \<open>POST /api/user/appointments\<close>, read by \<open>GET /api/user/appointments/:id\<close>\<close>

text \<open>
  A JavaScript \<open>Date\<close> is a time value: milliseconds since 1970-01-01T00:00:00Z. The
  two functions below are the calendar arithmetic of the language (day number of a civil
  date, and back), in the proleptic Gregorian calendar.
\<close>

definition days_from_civil :: "int \<Rightarrow> int \<Rightarrow> int \<Rightarrow> int" where
  "days_from_civil y m d =
     (let y' = (if m \<le> 2 then y - 1 else y);
          era = y' div 400;
          yoe = y' - era * 400;
          doy = (153 * (if m > 2 then m - 3 else m + 9) + 2) div 5 + d - 1;
          doe = yoe * 365 + yoe div 4 - yoe div 100 + doy
      in era * 146097 + doe - 719468)"

definition civil_from_days :: "int \<Rightarrow> int \<times> int \<times> int" where
  "civil_from_days z =
     (let z' = z + 719468;
          era = z' div 146097;
          doe = z' - era * 146097;
          yoe = (doe - doe div 1460 + doe div 36524 - doe div 146096) div 365;
          doy = doe - (365 * yoe + yoe div 4 - yoe div 100);
          mp = (5 * doy + 2) div 153;
          d = doy - (153 * mp + 2) div 5 + 1;
          m = (if mp < 10 then mp + 3 else mp - 9)
      in (yoe + era * 400 + (if m \<le> 2 then 1 else 0), m, d))"

definition ms_per_day :: int where
  "ms_per_day = 86400000"

definition days_in_month :: "nat \<Rightarrow> nat \<Rightarrow> nat" where
  "days_in_month y m =
     (if m = 2 then (if y mod 4 = 0 \<and> (y mod 100 \<noteq> 0 \<or> y mod 400 = 0) then 29 else 28)
      else if m \<in> set [4, 6, 9, 11] then 30 else 31)"

definition valid_date :: "sql_date \<Rightarrow> bool" where
  "valid_date ymd =
     (case ymd of (y, m, d) \<Rightarrow> 1 \<le> m \<and> m \<le> 12 \<and> 1 \<le> d \<and> d \<le> days_in_month y m)"

text \<open>
  \<open>new Date(text).getTime()\<close>. A date-only text \<open>YYYY-MM-DD\<close> of a valid date is
  midnight UTC of that day, whatever the zone of the process. What the engine makes of
  any other text is the parameter \<open>other\<close>; \<open>None\<close> is \<open>NaN\<close>.
\<close>

definition Date_getTime :: "(string \<Rightarrow> int option) \<Rightarrow> string \<Rightarrow> int option" where
  "Date_getTime other text =
     (case iso_date text of
        Some (y, m, d) \<Rightarrow>
          if valid_date (y, m, d)
          then Some (days_from_civil (int y) (int m) (int d) * ms_per_day)
          else other text
      | None \<Rightarrow> other text)"

text \<open>
  \<open>toISOString\<close>, for the years 0 to 9999: \<open>YYYY-MM-DDTHH:mm:ss.sssZ\<close>, in UTC.
\<close>

definition toISOString :: "int \<Rightarrow> string" where
  "toISOString t =
     (let (y, m, d) = civil_from_days (t div ms_per_day);
          ms = nat (t mod ms_per_day)
      in padStart0 4 (decimal (nat y)) @ ''-'' @ padStart0 2 (decimal (nat m)) @ ''-'' @
         padStart0 2 (decimal (nat d)) @ ''T'' @
         padStart0 2 (decimal (ms div 3600000)) @ '':'' @
         padStart0 2 (decimal (ms div 60000 mod 60)) @ '':'' @
         padStart0 2 (decimal (ms div 1000 mod 60)) @ ''.'' @
         padStart0 3 (decimal (ms mod 1000)) @ ''Z'')"

text \<open>
  The date block of \<open>POST /api/user/appointments\<close>, on the text \<open>appointment_date\<close> of
  the body:
  \<^verbatim>\<open>
    const dateObj = new Date(appointment_date);
    if (isNaN(dateObj.getTime())) throw ...   // answered with status 400
    formattedDate = dateObj.toISOString().split('T')[0];
  \<close>
\<close>

definition formattedDate :: "(string \<Rightarrow> int option) \<Rightarrow> string \<Rightarrow> (nat \<times> string) + string" where
  "formattedDate other date_text =
     (case Date_getTime other date_text of
        None \<Rightarrow> Inl (400, ''Invalid date format. Please provide date in YYYY-MM-DD format'')
      | Some t \<Rightarrow> Inr (hd (js_split ''T'' (toISOString t))))"

text \<open>
  Reading: the handlers answer \<open>res.json(rows[0])\<close> with the row as the driver returns
  it. The pool is created without \<open>dateStrings\<close> and without \<open>timezone\<close>, so the
  driver hands a \<open>DATE\<close> column over as the \<open>Date\<close> of midnight of that day in the
  zone of the process, and \<open>res.json\<close> prints a \<open>Date\<close> with \<open>toISOString\<close>.
  \<open>zone\<close> is the offset of the server's zone from UTC on that day, in minutes (240 for
  UTC+04:00).
\<close>

definition driver_date :: "int \<Rightarrow> sql_date \<Rightarrow> int" where
  "driver_date zone ymd =
     (case ymd of (y, m, d) \<Rightarrow> days_from_civil (int y) (int m) (int d) * ms_per_day - zone * 60000)"

definition json_appointment_date :: "int \<Rightarrow> sql_date \<Rightarrow> string" where
  "json_appointment_date zone ymd = toISOString (driver_date zone ymd)"

text \<open>
  Writing \<open>appointment_date\<close> and reading it back: the text is normalised, stored in the
  \<open>DATE\<close> column, and returned by the read handler.
\<close>

definition write_then_read_date ::
  "(string \<Rightarrow> int option) \<Rightarrow> int \<Rightarrow> string \<Rightarrow> (nat \<times> string) + string" where
  "write_then_read_date other zone date_text =
     (case formattedDate other date_text of
        Inl e \<Rightarrow> Inl e
      | Inr text \<Rightarrow>
          (case iso_date text of
             None \<Rightarrow> Inl (500, ''Server error during appointment creation'')
           | Some stored \<Rightarrow> Inr (json_appointment_date zone stored)))"

section \<open>Properties of the OTP store\<close>

lemma storeOTP_fresh:
  "storeOTP now otpStorage phone code (formatPhone phone) =
     Some \<lparr>otp = code, expiresAt = now + 300000, attempts = 0\<rparr>"
  by (simp add: storeOTP_def)

lemma verifyOTP_missing:
  "otpStorage (formatPhone phone) = None \<Longrightarrow>
   verifyOTP now otpStorage phone code = (NotFound, otpStorage)"
  by (simp add: verifyOTP_def NotFound_def)

lemma verifyOTP_exceeded:
  "otpStorage (formatPhone phone) = Some e \<Longrightarrow> now \<le> expiresAt e \<Longrightarrow> 3 \<le> attempts e \<Longrightarrow>
   verifyOTP now otpStorage phone code = (AttemptsExceeded, otpStorage(formatPhone phone := None))"
  by (simp add: verifyOTP_def AttemptsExceeded_def)

lemma verifyOTP_correct:
  "otpStorage (formatPhone phone) = Some e \<Longrightarrow> now \<le> expiresAt e \<Longrightarrow> attempts e < 3 \<Longrightarrow>
   verifyOTP now otpStorage phone (otp e) = (Verified, otpStorage(formatPhone phone := None))"
  by (simp add: verifyOTP_def Verified_def)

lemma verifyOTP_wrong:
  "otpStorage (formatPhone phone) = Some e \<Longrightarrow> now \<le> expiresAt e \<Longrightarrow> attempts e < 3 \<Longrightarrow>
   code \<noteq> otp e \<Longrightarrow>
   verifyOTP now otpStorage phone code =
     (Mismatch (3 - (attempts e + 1)),
      otpStorage(formatPhone phone \<mapsto> e\<lparr>attempts := attempts e + 1\<rparr>))"
  by (auto simp add: verifyOTP_def Mismatch_def Let_def)

text \<open>
  Claim C3, as stated, fails for a live entry that already counts wrong attempts. An
  entry is stored (\<open>attempts = 0\<close>) and two wrong codes are submitted; the entry is then
  live and unexpired with \<open>attempts = 2\<close>. Of the next four calls the first, with a
  wrong code, reports 0 remaining; the second, with a wrong code, does not add to
  \<open>attempts\<close> but fails with "Maximum verification attempts exceeded" and deletes the
  entry; the third and the fourth, the fourth with the correct code, fail with
  "OTP not found or expired".
\<close>

theorem C3_counted_attempts_fourth_is_not_found:
  "let s0 = storeOTP 0 Map.empty ''971501234567'' ''123456'';
       (q1, sa) = verifyOTP 100 s0 ''971501234567'' ''999999'';
       (q2, st) = verifyOTP 200 sa ''971501234567'' ''888888'';
       (r1, s1) = verifyOTP 1000 st ''971501234567'' ''000000'';
       (r2, s2) = verifyOTP 2000 s1 ''971501234567'' ''111111'';
       (r3, s3) = verifyOTP 3000 s2 ''971501234567'' ''222222'';
       (r4, s4) = verifyOTP 4000 s3 ''971501234567'' ''123456''
   in st ''+971501234567'' = Some \<lparr>otp = ''123456'', expiresAt = 300000, attempts = 2\<rparr> \<and>
      r1 = Mismatch 0 \<and>
      s1 ''+971501234567'' = Some \<lparr>otp = ''123456'', expiresAt = 300000, attempts = 3\<rparr> \<and>
      r2 = AttemptsExceeded \<and> s2 ''+971501234567'' = None \<and>
      r3 = NotFound \<and> r4 = NotFound \<and> r4 \<noteq> AttemptsExceeded"
  by (simp add: storeOTP_def verifyOTP_def formatPhone_def Let_def Mismatch_def
      AttemptsExceeded_def NotFound_def)

text \<open>
  Claim C3, amended. A phone has a live entry as \<open>storeOTP\<close> writes it (\<open>attempts = 0\<close>), and four
  \<open>verifyOTP\<close> calls are made, none of them after \<open>expiresAt\<close>. If the first three
  submit a wrong code, each of them adds exactly 1 to \<open>attempts\<close> and reports
  \<open>3 - attempts\<close> remaining (2, 1, 0), and the fourth call fails with
  "Maximum verification attempts exceeded" and deletes the entry, whatever code it
  submits, the correct one included.
\<close>

theorem C3_fourth_verify_attempts_exceeded:
  assumes live: "otpStorage (formatPhone phone) = Some e"
    and fresh: "attempts e = 0"
    and t1: "t1 \<le> expiresAt e" and t2: "t2 \<le> expiresAt e"
    and t3: "t3 \<le> expiresAt e" and t4: "t4 \<le> expiresAt e"
    and c1: "c1 \<noteq> otp e" and c2: "c2 \<noteq> otp e" and c3: "c3 \<noteq> otp e"
  shows "let (r1, s1) = verifyOTP t1 otpStorage phone c1;
             (r2, s2) = verifyOTP t2 s1 phone c2;
             (r3, s3) = verifyOTP t3 s2 phone c3;
             (r4, s4) = verifyOTP t4 s3 phone c4
         in r1 = Mismatch 2 \<and> s1 (formatPhone phone) = Some (e\<lparr>attempts := 1\<rparr>) \<and>
            r2 = Mismatch 1 \<and> s2 (formatPhone phone) = Some (e\<lparr>attempts := 2\<rparr>) \<and>
            r3 = Mismatch 0 \<and> s3 (formatPhone phone) = Some (e\<lparr>attempts := 3\<rparr>) \<and>
            r4 = AttemptsExceeded \<and> s4 (formatPhone phone) = None"
proof -
  let ?p = "formatPhone phone"
  let ?e1 = "e\<lparr>attempts := 1\<rparr>" and ?e2 = "e\<lparr>attempts := 2\<rparr>" and ?e3 = "e\<lparr>attempts := 3\<rparr>"
  let ?s1 = "otpStorage(?p \<mapsto> ?e1)"
  let ?s2 = "?s1(?p \<mapsto> ?e2)"
  let ?s3 = "?s2(?p \<mapsto> ?e3)"
  have v1: "verifyOTP t1 otpStorage phone c1 = (Mismatch 2, ?s1)"
    using verifyOTP_wrong [of otpStorage phone e t1 c1] live t1 c1 fresh by simp
  have v2: "verifyOTP t2 ?s1 phone c2 = (Mismatch 1, ?s2)"
    using verifyOTP_wrong [of ?s1 phone ?e1 t2 c2] t2 c2 fresh by (simp add: numeral_2_eq_2)
  have v3: "verifyOTP t3 ?s2 phone c3 = (Mismatch 0, ?s3)"
    using verifyOTP_wrong [of ?s2 phone ?e2 t3 c3] t3 c3 fresh by (simp add: numeral_3_eq_3)
  have v4: "verifyOTP t4 ?s3 phone c4 = (AttemptsExceeded, ?s3(?p := None))"
    using verifyOTP_exceeded [of ?s3 phone ?e3 t4 c4] t4 by simp
  show ?thesis
    unfolding Let_def v1 prod.case v2 v3 v4 by simp
qed

theorem C3_fourth_verify_attempts_exceeded_witness:
  "let st = storeOTP 0 Map.empty ''971501234567'' ''123456'';
       (r1, s1) = verifyOTP 1000 st ''971501234567'' ''000000'';
       (r2, s2) = verifyOTP 2000 s1 ''971501234567'' ''111111'';
       (r3, s3) = verifyOTP 3000 s2 ''971501234567'' ''222222'';
       (r4, s4) = verifyOTP 4000 s3 ''971501234567'' ''123456''
   in st (formatPhone ''971501234567'') =
        Some \<lparr>otp = ''123456'', expiresAt = 300000, attempts = 0\<rparr> \<and>
      (4000 :: nat) \<le> 300000 \<and> ''000000'' \<noteq> ''123456'' \<and> ''111111'' \<noteq> ''123456'' \<and>
      ''222222'' \<noteq> ''123456'' \<and>
      r1 = Mismatch 2 \<and> r2 = Mismatch 1 \<and> r3 = Mismatch 0 \<and>
      r4 = AttemptsExceeded \<and> s4 ''+971501234567'' = None"
  using C3_fourth_verify_attempts_exceeded
    [of "storeOTP 0 Map.empty ''971501234567'' ''123456''"
        "''971501234567''" "\<lparr>otp = ''123456'', expiresAt = 300000, attempts = 0\<rparr>"
        1000 2000 3000 4000 "''000000''" "''111111''" "''222222''" "''123456''"]
  by (simp add: storeOTP_def formatPhone_def Let_def split: prod.splits)

text \<open>
  Claim C4. For a phone with a live, unexpired entry whose \<open>attempts\<close> is below 3,
  \<open>verifyOTP\<close> with the stored code succeeds and deletes the entry; a second call for
  the same phone with the same code, at any later moment, fails with
  "OTP not found or expired" and leaves the store as it is.
\<close>

theorem C4_correct_code_succeeds_once:
  assumes live: "otpStorage (formatPhone phone) = Some e"
    and unexpired: "t1 \<le> expiresAt e"
    and below: "attempts e < 3"
  shows "let (r1, s1) = verifyOTP t1 otpStorage phone (otp e);
             (r2, s2) = verifyOTP t2 s1 phone (otp e)
         in r1 = Verified \<and> s1 = otpStorage(formatPhone phone := None) \<and>
            r2 = NotFound \<and> s2 = s1"
proof -
  let ?s1 = "otpStorage(formatPhone phone := None)"
  have v1: "verifyOTP t1 otpStorage phone (otp e) = (Verified, ?s1)"
    using verifyOTP_correct [of otpStorage phone e t1] live unexpired below by simp
  have v2: "verifyOTP t2 ?s1 phone (otp e) = (NotFound, ?s1)"
    using verifyOTP_missing [of ?s1 phone t2 "otp e"] by simp
  show ?thesis
    by (simp add: v1 v2)
qed

theorem C4_correct_code_succeeds_once_witness:
  "let st = [''+971501234567'' \<mapsto> \<lparr>otp = ''123456'', expiresAt = 300000, attempts = 2\<rparr>];
       (r1, s1) = verifyOTP 1000 st ''+971501234567'' ''123456'';
       (r2, s2) = verifyOTP 2000 s1 ''+971501234567'' ''123456''
   in st (formatPhone ''+971501234567'') =
        Some \<lparr>otp = ''123456'', expiresAt = 300000, attempts = 2\<rparr> \<and>
      (1000 :: nat) \<le> 300000 \<and> (2 :: nat) < 3 \<and>
      r1 = Verified \<and> s1 ''+971501234567'' = None \<and> r2 = NotFound \<and> s2 = s1"
  using C4_correct_code_succeeds_once
    [of "[''+971501234567'' \<mapsto> \<lparr>otp = ''123456'', expiresAt = 300000, attempts = 2\<rparr>]"
        "''+971501234567''" "\<lparr>otp = ''123456'', expiresAt = 300000, attempts = 2\<rparr>"
        1000 2000]
  by (simp add: formatPhone_def Let_def split: prod.splits)

section \<open>Properties of the appointment time normalisation\<close>

lemma js_split_not_Nil: "sep \<noteq> [] \<Longrightarrow> js_split sep s \<noteq> []"
  by (subst js_split.simps) (simp split: option.splits prod.splits)

lemma digit_not_sep: "is_digit c \<Longrightarrow> c \<noteq> CHR '' '' \<and> c \<noteq> CHR '':''"
  by (auto simp: is_digit_def)

lemmas js_eval = trim_def is_space_def js_split.simps Let_def js_index_def
  parseInt_def is_digit_def digits_val_def digit_val_def number_toString_def decimal.simps
  digit_char_def padStart0_def

lemma canonical_time_unchanged: "canonical_time t \<Longrightarrow> extractStartTime t = t"
  by (simp add: extractStartTime_def)

lemma display_range_start:
  assumes h: "1 \<le> h" "h \<le> 12" and m: "is_digit m1" "is_digit m2"
    and ap: "ap = ''AM'' \<or> ap = ''PM''"
  shows "extractStartTime (decimal h @ '':'' @ [m1, m2] @ '' '' @ ap @ '' - '' @ rest) =
         padStart0 2 (decimal ((if h = 12 then 0 else h) + (if ap = ''PM'' then 12 else 0)))
           @ '':'' @ [m1, m2] @ '':00''"
proof -
  from m have ne: "m1 \<noteq> CHR '' ''" "m1 \<noteq> CHR '':''" "m2 \<noteq> CHR '' ''" "m2 \<noteq> CHR '':''"
    by (auto dest: digit_not_sep)
  from h have "h = 1 \<or> h = 2 \<or> h = 3 \<or> h = 4 \<or> h = 5 \<or> h = 6 \<or> h = 7 \<or> h = 8 \<or> h = 9 \<or>
      h = 10 \<or> h = 11 \<or> h = 12"
    by arith
  then show ?thesis
    using ap ne m
    by (elim disjE) (simp_all add: extractStartTime_def convertTo24Hour_def js_eval)
qed

text \<open>
  Claim C5. \<open>extractStartTime\<close> returns an input of the form \<open>dd:dd\<close> or \<open>dd:dd:dd\<close>
  unchanged. For a display range \<open>h:mm AM - ...\<close> or \<open>h:mm PM - ...\<close> with
  \<open>1 \<le> h \<le> 12\<close> it keeps the start time only and returns \<open>HH:mm:00\<close>, where the
  hour is \<open>h\<close> with 12 replaced by 0, plus 12 for \<open>PM\<close>, padded to two digits.
  In particular the three ranges of the specification give \<open>14:00:00\<close>,
  \<open>00:00:00\<close> and \<open>12:15:00\<close>.
\<close>

theorem C5_extractStartTime:
  "(canonical_time t \<longrightarrow> extractStartTime t = t) \<and>
   (1 \<le> h \<and> h \<le> 12 \<and> is_digit m1 \<and> is_digit m2 \<and> (ap = ''AM'' \<or> ap = ''PM'') \<longrightarrow>
      extractStartTime (decimal h @ '':'' @ [m1, m2] @ '' '' @ ap @ '' - '' @ rest) =
      padStart0 2 (decimal ((if h = 12 then 0 else h) + (if ap = ''PM'' then 12 else 0)))
        @ '':'' @ [m1, m2] @ '':00'') \<and>
   extractStartTime ''2:00 PM - 2:30 PM'' = ''14:00:00'' \<and>
   extractStartTime ''12:00 AM - 12:30 AM'' = ''00:00:00'' \<and>
   extractStartTime ''12:15 PM - 12:45 PM'' = ''12:15:00''"
proof (intro conjI impI)
  show "extractStartTime t = t" if "canonical_time t"
    using that by (rule canonical_time_unchanged)
  show "extractStartTime (decimal h @ '':'' @ [m1, m2] @ '' '' @ ap @ '' - '' @ rest) =
      padStart0 2 (decimal ((if h = 12 then 0 else h) + (if ap = ''PM'' then 12 else 0)))
        @ '':'' @ [m1, m2] @ '':00''"
    if "1 \<le> h \<and> h \<le> 12 \<and> is_digit m1 \<and> is_digit m2 \<and> (ap = ''AM'' \<or> ap = ''PM'')"
    using that display_range_start [of h m1 m2 ap rest] by blast
  show "extractStartTime ''2:00 PM - 2:30 PM'' = ''14:00:00''"
    by (simp add: extractStartTime_def convertTo24Hour_def js_eval)
  show "extractStartTime ''12:00 AM - 12:30 AM'' = ''00:00:00''"
    by (simp add: extractStartTime_def convertTo24Hour_def js_eval)
  show "extractStartTime ''12:15 PM - 12:45 PM'' = ''12:15:00''"
    by (simp add: extractStartTime_def convertTo24Hour_def js_eval)
qed

theorem C5_extractStartTime_witness:
  "canonical_time ''14:00:00'' \<and> extractStartTime ''14:00:00'' = ''14:00:00'' \<and>
   canonical_time ''09:30'' \<and> extractStartTime ''09:30'' = ''09:30'' \<and>
   is_digit CHR ''0'' \<and> is_digit CHR ''5'' \<and>
   extractStartTime ''9:05 PM - 9:35 PM'' = ''21:05:00'' \<and>
   extractStartTime ''11:05 AM - 11:35 AM'' = ''11:05:00''"
  using C5_extractStartTime [of "''14:00:00''" 9 "CHR ''0''" "CHR ''5''" "''PM''" "''9:35 PM''"]
    C5_extractStartTime [of "''09:30''" 11 "CHR ''0''" "CHR ''5''" "''AM''" "''11:35 AM''"]
  by (simp add: is_digit_def decimal.simps digit_char_def padStart0_def)

section \<open>Properties of the time-slot handlers\<close>


lemma overlap_tests_iff:
  "start_time r < end_time r \<Longrightarrow> s < e \<Longrightarrow>
   overlap_tests r s e \<longleftrightarrow> (s < end_time r \<and> start_time r < e)"
  by (auto simp: overlap_tests_def)

lemma timeRegex_length: "timeRegex s \<Longrightarrow> length s \<le> 5"
  by (induction s rule: timeRegex.induct) simp_all

lemma length_padStart0: "n \<le> length (padStart0 n s)"
  by (simp add: padStart0_def)

lemma not_timeRegex_time_text: "\<not> timeRegex (time_text t)"
proof
  assume "timeRegex (time_text t)"
  then have "length (time_text t) \<le> 5" by (rule timeRegex_length)
  moreover have "8 \<le> length (time_text t)"
    using length_padStart0 [of 2 "decimal (t div 3600)"]
      length_padStart0 [of 2 "decimal (t div 60 mod 60)"]
      length_padStart0 [of 2 "decimal (t mod 60)"]
    by (simp add: time_text_def)
  ultimately show False by simp
qed

lemma js_or_regex:
  "timeRegex (js_or x (time_text t)) \<Longrightarrow> truthy x \<and> x = Val (js_or x (time_text t))"
  by (cases x) (auto simp: not_timeRegex_time_text)




lemma digit_not_colon: "is_digit c \<Longrightarrow> c \<noteq> CHR '':''"
  by (auto simp: is_digit_def)

lemma sql_time_short:
  assumes "timeRegex [h, c, m1, m2]"
  shows "sql_time [h, c, m1, m2] = Some ((digit_val h * 60 + (digit_val m1 * 10 + digit_val m2)) * 60)"
proof -
  from assms have c: "c = CHR '':''" and ne: "h \<noteq> CHR '':''" "m1 \<noteq> CHR '':''" "m2 \<noteq> CHR '':''"
    by (auto simp: is_digit_def)
  show ?thesis
    using assms ne unfolding c
    by (simp add: sql_time_def js_split.simps digits_val_def)
qed

lemma sql_time_padded:
  assumes "timeRegex [h1, h2, c, m1, m2]"
  shows "sql_time [h1, h2, c, m1, m2] =
    Some (((digit_val h1 * 10 + digit_val h2) * 60 + (digit_val m1 * 10 + digit_val m2)) * 60)"
proof -
  from assms have c: "c = CHR '':''"
    and ne: "h1 \<noteq> CHR '':''" "h2 \<noteq> CHR '':''" "m1 \<noteq> CHR '':''" "m2 \<noteq> CHR '':''"
    by (auto simp: is_digit_def)
  show ?thesis
    using assms ne unfolding c
    by (simp add: sql_time_def js_split.simps digits_val_def)
qed

lemma timeRegex_shapes:
  assumes "timeRegex s"
  obtains h c m1 m2 where "s = [h, c, m1, m2]" | h1 h2 c m1 m2 where "s = [h1, h2, c, m1, m2]"
  using assms by (induction s rule: timeRegex.induct) auto

lemma sql_time_defined:
  assumes r: "timeRegex s"
  shows "\<exists>t. sql_time s = Some t"
  using r
proof (rule timeRegex_shapes)
  fix h c m1 m2
  assume "s = [h, c, m1, m2]"
  with r sql_time_short [of h c m1 m2] show ?thesis by blast
next
  fix h1 h2 c m1 m2
  assume "s = [h1, h2, c, m1, m2]"
  with r sql_time_padded [of h1 h2 c m1 m2] show ?thesis by blast
qed

lemma post_conflict_iff:
  assumes "timeRegex st" "timeRegex en" "js_str_less st en" "defined cat" "dt \<noteq> []"
    and "sql_time st = Some s" "sql_time en = Some e"
  shows "snd (post_admin_available_time_slots to_date db
            \<lparr>b_start_time = Val st, b_end_time = Val en, b_is_available = av,
             b_extra_price = ex, b_date = Val dt, b_service_category_id = cat\<rparr>) =
           Failed 400 ''Time slot overlaps with existing available slot'' \<longleftrightarrow>
         (\<exists>r \<in> set (available_time_slots db).
            Some (date r) = to_date dt \<and> is_available r = Some True \<and>
            same_category (service_category_id r) (sql_value cat) \<and> overlap_tests r s e)"
proof -
  from assms(1) have "st \<noteq> []" by (auto elim: timeRegex_shapes)
  moreover from assms(2) have "en \<noteq> []" by (auto elim: timeRegex_shapes)
  ultimately show ?thesis
    using assms
    by (auto simp add: post_admin_available_time_slots_def Let_def filter_empty_conv
        split: option.splits)
qed

lemma digit_code:
  assumes "is_digit c"
  shows "(of_char c :: nat) = 48 + digit_val c" and "digit_val c \<le> 9"
  using assms by (auto simp: is_digit_def digit_val_def)

lemma digit_eq_iff:
  assumes "is_digit a" "is_digit b"
  shows "a = b \<longleftrightarrow> digit_val a = digit_val b"
proof -
  have "a = b \<longleftrightarrow> (of_char a :: nat) = of_char b"
    by simp
  also have "\<dots> \<longleftrightarrow> digit_val a = digit_val b"
    by (simp add: digit_code(1) [OF assms(1)] digit_code(1) [OF assms(2)])
  finally show ?thesis .
qed

lemma minute_tens: "m \<in> set ''012345'' \<Longrightarrow> is_digit m \<and> digit_val m \<le> 5"
  by (auto simp: is_digit_def digit_val_def)

lemma hour_digits:
  "(h1 \<in> set ''01'' \<and> is_digit h2) \<or> (h1 = CHR ''2'' \<and> h2 \<in> set ''0123'') \<Longrightarrow>
   is_digit h1 \<and> is_digit h2"
  by (auto simp: is_digit_def)

lemma padded_digits:
  assumes "timeRegex [h1, h2, c, m1, m2]"
  shows "is_digit h1" "is_digit h2" "c = CHR '':''" "is_digit m1" "digit_val m1 \<le> 5" "is_digit m2"
proof -
  from assms have h: "(h1 \<in> set ''01'' \<and> is_digit h2) \<or> (h1 = CHR ''2'' \<and> h2 \<in> set ''0123'')"
    and c: "c = CHR '':''" and m1: "m1 \<in> set ''012345''" and m2: "is_digit m2"
    unfolding timeRegex.simps by blast+
  from hour_digits [OF h] show "is_digit h1" "is_digit h2" by simp_all
  from minute_tens [OF m1] show "is_digit m1" "digit_val m1 \<le> 5" by simp_all
  show "c = CHR '':''" by (rule c)
  show "is_digit m2" by (rule m2)
qed

lemma lex_step:
  fixes a b k x y :: nat
  assumes "a < b" "x < k"
  shows "a * k + x < b * k + y"
proof -
  from assms(1) have "Suc a * k \<le> b * k"
    by (intro mult_le_mono1) simp
  then have "a * k + k \<le> b * k" by simp
  with assms(2) show ?thesis by simp
qed

lemma lex_less:
  fixes x1 x2 y1 y2 k :: nat
  assumes "x2 < k" "y2 < k"
  shows "(x1 < y1 \<or> (x1 = y1 \<and> x2 < y2)) \<longleftrightarrow> x1 * k + x2 < y1 * k + y2"
proof (cases x1 y1 rule: linorder_cases)
  case less
  with lex_step [OF less assms(1), of y2] show ?thesis by simp
next
  case equal
  then show ?thesis by simp
next
  case greater
  with lex_step [OF greater assms(2), of x2] show ?thesis by simp
qed

lemma lex_eq:
  fixes x1 x2 y1 y2 k :: nat
  assumes "x2 < k" "y2 < k"
  shows "(x1 = y1 \<and> x2 = y2) \<longleftrightarrow> x1 * k + x2 = y1 * k + y2"
proof (cases x1 y1 rule: linorder_cases)
  case less
  with lex_step [OF less assms(1), of y2] show ?thesis by simp
next
  case equal
  then show ?thesis by simp
next
  case greater
  with lex_step [OF greater assms(2), of x2] show ?thesis by simp
qed

lemma padded_order:
  assumes a: "timeRegex [a1, a2, c, a3, a4]" and b: "timeRegex [b1, b2, c', b3, b4]"
    and s: "sql_time [a1, a2, c, a3, a4] = Some s" and e: "sql_time [b1, b2, c', b3, b4] = Some e"
  shows "js_str_less [a1, a2, c, a3, a4] [b1, b2, c', b3, b4] \<longleftrightarrow> s < e"
proof -
  note da = padded_digits [OF a] and db = padded_digits [OF b]
  from s have sv: "s = ((digit_val a1 * 10 + digit_val a2) * 60 + (digit_val a3 * 10 + digit_val a4)) * 60"
    by (simp add: sql_time_padded [OF a])
  from e have ev: "e = ((digit_val b1 * 10 + digit_val b2) * 60 + (digit_val b3 * 10 + digit_val b4)) * 60"
    by (simp add: sql_time_padded [OF b])
  have bounds: "digit_val a2 \<le> 9" "digit_val a3 \<le> 5" "digit_val a4 \<le> 9"
    "digit_val b2 \<le> 9" "digit_val b3 \<le> 5" "digit_val b4 \<le> 9"
    using da db by (simp_all add: digit_code(2))
  have "js_str_less [a1, a2, c, a3, a4] [b1, b2, c', b3, b4] \<longleftrightarrow>
      digit_val a1 < digit_val b1 \<or> (digit_val a1 = digit_val b1 \<and>
        (digit_val a2 < digit_val b2 \<or> (digit_val a2 = digit_val b2 \<and>
          (digit_val a3 < digit_val b3 \<or> (digit_val a3 = digit_val b3 \<and>
            digit_val a4 < digit_val b4)))))"
    using da db
    by (simp add: digit_code(1) digit_eq_iff)
  also have "\<dots> \<longleftrightarrow>
      digit_val a1 < digit_val b1 \<or> (digit_val a1 = digit_val b1 \<and>
        (digit_val a2 < digit_val b2 \<or> (digit_val a2 = digit_val b2 \<and>
          digit_val a3 * 10 + digit_val a4 < digit_val b3 * 10 + digit_val b4)))"
    using lex_less [of "digit_val a4" 10 "digit_val b4" "digit_val a3" "digit_val b3"] bounds by simp
  also have "\<dots> \<longleftrightarrow>
      digit_val a1 * 10 + digit_val a2 < digit_val b1 * 10 + digit_val b2 \<or>
      (digit_val a1 * 10 + digit_val a2 = digit_val b1 * 10 + digit_val b2 \<and>
       digit_val a3 * 10 + digit_val a4 < digit_val b3 * 10 + digit_val b4)"
    using lex_less [of "digit_val a2" 10 "digit_val b2" "digit_val a1" "digit_val b1"]
      lex_eq [of "digit_val a2" 10 "digit_val b2" "digit_val a1" "digit_val b1"] bounds by auto
  also have "\<dots> \<longleftrightarrow>
      (digit_val a1 * 10 + digit_val a2) * 60 + (digit_val a3 * 10 + digit_val a4) <
      (digit_val b1 * 10 + digit_val b2) * 60 + (digit_val b3 * 10 + digit_val b4)"
    using lex_less [of "digit_val a3 * 10 + digit_val a4" 60 "digit_val b3 * 10 + digit_val b4"
        "digit_val a1 * 10 + digit_val a2" "digit_val b1 * 10 + digit_val b2"] bounds
    by simp
  also have "\<dots> \<longleftrightarrow> s < e"
    unfolding sv ev mult_less_cancel2 by simp
  finally show ?thesis .
qed

lemma padded_request_conflict_iff:
  assumes st: "timeRegex [a1, a2, c, a3, a4]" and en: "timeRegex [b1, b2, c', b3, b4]"
    and s: "sql_time [a1, a2, c, a3, a4] = Some s" and e: "sql_time [b1, b2, c', b3, b4] = Some e"
    and order: "s < e" and cat: "defined cat" and dt: "dt \<noteq> []"
    and wf: "\<forall>r \<in> set (available_time_slots db). start_time r < end_time r"
  shows "snd (post_admin_available_time_slots to_date db
            \<lparr>b_start_time = Val [a1, a2, c, a3, a4], b_end_time = Val [b1, b2, c', b3, b4],
             b_is_available = av, b_extra_price = ex, b_date = Val dt,
             b_service_category_id = cat\<rparr>) =
           Failed 400 ''Time slot overlaps with existing available slot'' \<longleftrightarrow>
         (\<exists>r \<in> set (available_time_slots db).
            Some (date r) = to_date dt \<and> is_available r = Some True \<and>
            same_category (service_category_id r) (sql_value cat) \<and>
            s < end_time r \<and> start_time r < e)"
proof -
  have less: "js_str_less [a1, a2, c, a3, a4] [b1, b2, c', b3, b4]"
    using padded_order [OF st en s e] order by simp
  have tests: "overlap_tests r s e \<longleftrightarrow> s < end_time r \<and> start_time r < e"
    if "r \<in> set (available_time_slots db)" for r
    using that wf order by (intro overlap_tests_iff) auto
  have "snd (post_admin_available_time_slots to_date db
            \<lparr>b_start_time = Val [a1, a2, c, a3, a4], b_end_time = Val [b1, b2, c', b3, b4],
             b_is_available = av, b_extra_price = ex, b_date = Val dt,
             b_service_category_id = cat\<rparr>) =
           Failed 400 ''Time slot overlaps with existing available slot'' \<longleftrightarrow>
         (\<exists>r \<in> set (available_time_slots db).
            Some (date r) = to_date dt \<and> is_available r = Some True \<and>
            same_category (service_category_id r) (sql_value cat) \<and> overlap_tests r s e)"
    by (rule post_conflict_iff [OF st en less cat dt s e])
  also have "\<dots> \<longleftrightarrow> (\<exists>r \<in> set (available_time_slots db).
            Some (date r) = to_date dt \<and> is_available r = Some True \<and>
            same_category (service_category_id r) (sql_value cat) \<and>
            s < end_time r \<and> start_time r < e)"
    using tests by blast
  finally show ?thesis .
qed

lemmas slot_eval =
  post_admin_available_time_slots_def put_admin_available_time_slots_def create_body_def
  update_body_def one_slot_db_def empty_slots_db_def slot_0900_0930_def iso_date_def
  sql_time_def js_split.simps is_digit_def digits_val_def digit_val_def overlap_tests_def
  same_category_def unique_time_slot_free_def category_exists_def Let_def


text \<open>
  Claim C1 (the code departs from it). On a table holding the available slot
  \<open>[09:00, 09:30)\<close>, the request \<open>start_time = "9:00"\<close>, \<open>end_time = "10:00"\<close> for the
  same date and category scope passes \<open>timeRegex\<close>, its start is before its end as
  times, and its interval overlaps the stored slot under \<open>s1 < e2 AND s2 < e1\<close>; the
  handler answers "End time must be after start time" instead of the conflict error,
  because it compares the two texts as strings (the zero-padded request \<open>"09:00"\<close> to
  \<open>"10:00"\<close> does get the conflict error). The same comparison lets the request
  \<open>"10:00"\<close> to \<open>"9:00"\<close> through, and it is then inserted with its end before its start.
\<close>

theorem C1_string_comparison_of_times:
  "timeRegex ''9:00'' \<and> timeRegex ''10:00'' \<and>
   sql_time ''9:00'' = Some 32400 \<and> sql_time ''10:00'' = Some 36000 \<and>
   (32400 :: nat) < end_time slot_0900_0930 \<and> start_time slot_0900_0930 < (36000 :: nat) \<and>
   post_admin_available_time_slots to_date one_slot_db (create_body ''9:00'' ''10:00'' True Null) =
     (one_slot_db, Failed 400 ''End time must be after start time'') \<and>
   post_admin_available_time_slots iso_date one_slot_db (create_body ''09:00'' ''10:00'' True Null) =
     (one_slot_db, Failed 400 ''Time slot overlaps with existing available slot'') \<and>
   post_admin_available_time_slots iso_date empty_slots_db (create_body ''10:00'' ''9:00'' True Null) =
     (empty_slots_db
        \<lparr>available_time_slots :=
           [\<lparr>row_id = 1, date = (2025, 3, 10), service_category_id = None,
             is_available = Some True, start_time = 36000, end_time = 32400,
             extra_price = Some 0\<rparr>],
         next_slot_id := 2\<rparr>,
      Created 1)"
  by (simp add: slot_eval)

text \<open>
  What holds of the create handler: between a stored slot and a request interval that both
  start before they end, the three tests of the query are the rule
  \<open>s1 < e2 AND s2 < e1\<close> (\<open>overlap_tests_iff\<close>); for a request with zero-padded
  \<open>HH:MM\<close> times the string comparison is the comparison of the times
  (\<open>padded_order\<close>), and the conflict error is returned exactly when an available slot of
  the date and category scope overlaps (\<open>padded_request_conflict_iff\<close>); the overlapping
  request \<open>[09:15, 09:45)\<close> is refused and the touching request \<open>[09:30, 10:00)\<close> is
  inserted.
\<close>

lemma overlap_examples:
  "post_admin_available_time_slots iso_date one_slot_db (create_body ''09:15'' ''09:45'' True Null) =
     (one_slot_db, Failed 400 ''Time slot overlaps with existing available slot'') \<and>
   post_admin_available_time_slots iso_date one_slot_db (create_body ''09:30'' ''10:00'' True Null) =
     (one_slot_db
        \<lparr>available_time_slots :=
           [slot_0900_0930,
            \<lparr>row_id = 2, date = (2025, 3, 10), service_category_id = None,
             is_available = Some True, start_time = 34200, end_time = 36000,
             extra_price = Some 0\<rparr>],
         next_slot_id := 3\<rparr>,
      Created 2)"
  by (simp add: slot_eval)











text \<open>
  A request that leaves out one of the five fields is refused: the \<open>UPDATE\<close> would
  bind \<open>undefined\<close>.
\<close>

lemma put_absent_field:
  assumes "\<not> (defined (b_start_time body) \<and> defined (b_end_time body) \<and>
              defined (b_is_available body) \<and> defined (b_extra_price body) \<and>
              defined (b_service_category_id body))"
  shows "\<exists>c m. put_admin_available_time_slots bind_date db slot body = (db, Failed c m)"
  using assms
  by (auto simp add: put_admin_available_time_slots_def Let_def
      split: option.splits prod.splits if_splits)









section \<open>Properties of the public listings\<close>

lemma category_condition_omitted: "category_condition sql_eq None col"
  by (simp add: category_condition_def)

lemma category_condition_null: "category_condition sql_eq (Some ''null'') col \<longleftrightarrow> col = None"
  by (simp add: category_condition_def)

lemma category_condition_id:
  "c \<noteq> [] \<Longrightarrow> c \<noteq> ''null'' \<Longrightarrow>
   category_condition sql_eq (Some c) col \<longleftrightarrow> (\<exists>k. col = Some k \<and> sql_eq k c)"
  by (cases col) (simp_all add: category_condition_def)

lemma category_condition_empty: "category_condition sql_eq (Some []) col"
  by (simp add: category_condition_def)

lemma empty_categoryId_as_omitted:
  "get_available_dates sql_eq rows today (Some []) = get_available_dates sql_eq rows today None"
  "get_available_time_slots to_date sql_eq slots dt (Some []) =
   get_available_time_slots to_date sql_eq slots dt None"
  by (simp_all add: get_available_dates_def get_available_time_slots_def category_condition_def
      Let_def split: option.splits)

text \<open>
  Claim C6 (the code departs from it). With \<open>categoryId = ""\<close>, which the claim and the
  handlers' own test \<open>categoryId === ''\<close> treat as a request for the rows without a
  category, both listings return the rows of every category: the outer test
  \<open>if (categoryId)\<close> is false for the empty string, so no category condition is added.
  Here the date and the time slot of category 1 are listed next to the general ones.
\<close>

theorem C6_empty_categoryId_lists_every_category:
  "get_available_dates sql_eq [general_date, category_date] (2025, 3, 1) (Some '''') =
     [general_date, category_date] \<and>
   get_available_time_slots iso_date sql_eq [slot_0900_0930, category_slot]
     (Some ''2025-03-10'') (Some '''') = Inr [slot_0900_0930, category_slot] \<and>
   service_category_id category_date = Some 1 \<and> service_category_id category_slot = Some 1"
  by (simp add: get_available_dates_def get_available_time_slots_def category_condition_def
      general_date_def category_date_def category_slot_def slot_0900_0930_def iso_date_def
      is_digit_def digits_val_def digit_val_def less_eq_prod_def)

section \<open>Properties of the payment webhook and of the appointment update\<close>

lemma startsWith_append: "startsWith (p @ s) p"
  by (induction p) simp_all

lemma startsWith_decompose: "startsWith s p \<Longrightarrow> s = p @ drop (length p) s"
  by (induction s p rule: startsWith.induct) simp_all

lemma break_at_Some: "break_at sep s = Some (b, a) \<Longrightarrow> s = b @ sep @ a"
proof (induction s arbitrary: b)
  case Nil
  then show ?case by simp
next
  case (Cons c cs)
  show ?case
  proof (cases "startsWith (c # cs) sep")
    case True
    with Cons.prems startsWith_decompose [OF True] show ?thesis by simp
  next
    case False
    with Cons.prems obtain b' where "break_at sep cs = Some (b', a)" "b = c # b'"
      by (auto split: prod.splits)
    with Cons.IH [of b'] show ?thesis by simp
  qed
qed

lemma break_at_occurrence: "sep \<noteq> [] \<Longrightarrow> \<exists>x. break_at sep (b @ sep @ a) = Some x"
proof (induction b)
  case Nil
  then obtain c cs where sep: "sep = c # cs" by (cases sep) auto
  have "startsWith (sep @ a) sep" by (rule startsWith_append)
  then show ?case unfolding sep by simp
next
  case (Cons c b)
  then obtain x where "break_at sep (b @ sep @ a) = Some x" by blast
  then show ?case by (cases "startsWith (c # b @ sep @ a) sep") auto
qed

lemma break_at_None_iff:
  assumes "sep \<noteq> []"
  shows "break_at sep s = None \<longleftrightarrow> \<not> (\<exists>b a. s = b @ sep @ a)"
proof
  assume "break_at sep s = None"
  show "\<not> (\<exists>b a. s = b @ sep @ a)"
  proof
    assume "\<exists>b a. s = b @ sep @ a"
    then obtain b a where "s = b @ sep @ a" by blast
    with break_at_occurrence [OF assms, of b a] \<open>break_at sep s = None\<close> show False by simp
  qed
next
  assume no: "\<not> (\<exists>b a. s = b @ sep @ a)"
  show "break_at sep s = None"
  proof (cases "break_at sep s")
    case None
    then show ?thesis .
  next
    case (Some x)
    then have "s = fst x @ sep @ snd x" using break_at_Some [of sep s "fst x" "snd x"] by simp
    with no show ?thesis by blast
  qed
qed

lemma js_replace_prefix: "p \<noteq> [] \<Longrightarrow> js_replace p [] (p @ s) = s"
  by (cases p) (simp_all add: js_replace_def startsWith_append)

lemma js_replace_absent: "break_at p s = None \<Longrightarrow> js_replace p r s = s"
  by (simp add: js_replace_def)

lemma digits_val_snoc: "digits_val (ds @ [c]) = 10 * digits_val ds + digit_val c"
  by (simp add: digits_val_def)

lemma digit_val_digit_char: "d < 10 \<Longrightarrow> digit_val (digit_char d) = d"
proof -
  assume "d < 10"
  then have "d = 0 \<or> d = 1 \<or> d = 2 \<or> d = 3 \<or> d = 4 \<or> d = 5 \<or> d = 6 \<or> d = 7 \<or> d = 8 \<or> d = 9"
    by arith
  then show ?thesis
    by (elim disjE) (simp_all add: digit_val_def digit_char_def)
qed

lemma digits_val_decimal: "digits_val (decimal n) = n"
proof (induction n rule: decimal.induct)
  case (1 n)
  show ?case
  proof (cases "n < 10")
    case True
    then show ?thesis
      by (subst decimal.simps) (simp add: digits_val_def digit_val_digit_char)
  next
    case False
    with 1 have "digits_val (decimal (n div 10)) = n div 10" by simp
    with False show ?thesis
      by (subst decimal.simps) (simp add: digits_val_snoc digit_val_digit_char)
  qed
qed

lemma decimal_inj: "decimal k = decimal i \<longleftrightarrow> k = i"
proof
  assume "decimal k = decimal i"
  then have "digits_val (decimal k) = digits_val (decimal i)" by simp
  then show "k = i" by (simp only: digits_val_decimal)
next
  assume "k = i"
  then show "decimal k = decimal i" by simp
qed

lemma decimal_eq_decimal: "decimal_eq k (decimal i) = (k = i)"
  by (simp add: decimal_eq_def decimal_inj)

lemma payment_completed_ok:
  "update_payment_status rows (Some ''completed'') pid =
     Some (map (\<lambda>r. if Some (payment_id r) = pid then r\<lparr>payment_status := Some ''completed''\<rparr> else r) rows)"
  by (simp add: update_payment_status_def payment_statuses_def Let_def)

lemma webhook_completed:
  assumes "defined pid" "order_id \<noteq> []"
  shows "post_payments_ziina_webhook sql_eq db
           \<lparr>w_payment_id = pid, w_status = Val ''completed'', w_order_id = Val order_id\<rparr> =
         (db\<lparr>payments := map (\<lambda>r. if Some (payment_id r) = sql_value pid
                                   then r\<lparr>payment_status := Some ''completed''\<rparr> else r)
                             (payments db),
             appointments := update_appointment_status sql_eq (appointments db) ''confirmed''
                               (js_replace ''appointment_'' '''' order_id)\<rparr>,
          200, ''Webhook processed successfully'')"
  using assms
  by (simp add: post_payments_ziina_webhook_def payment_completed_ok Let_def)

lemma confirm_by_decimal:
  assumes "\<forall>k. sql_eq k (decimal i) = (k = i)"
  shows "update_appointment_status sql_eq rows ''confirmed'' (decimal i) =
         map (\<lambda>a. if appt_id a = i then a\<lparr>status := ''confirmed''\<rparr> else a) rows"
  using assms by (simp add: update_appointment_status_def)

lemma confirm_twice:
  "map (\<lambda>a. if appt_id a = i then a\<lparr>status := ''confirmed''\<rparr> else a)
     (map (\<lambda>a. if appt_id a = i then a\<lparr>status := ''confirmed''\<rparr> else a) rows) =
   map (\<lambda>a. if appt_id a = i then a\<lparr>status := ''confirmed''\<rparr> else a) rows"
  by (induction rows) auto

lemma confirmed_after:
  "\<forall>a \<in> set (map (\<lambda>a. if appt_id a = i then a\<lparr>status := ''confirmed''\<rparr> else a) rows).
     appt_id a = i \<longrightarrow> status a = ''confirmed''"
proof (intro ballI impI)
  fix a
  assume "a \<in> set (map (\<lambda>a. if appt_id a = i then a\<lparr>status := ''confirmed''\<rparr> else a) rows)"
    and i: "appt_id a = i"
  then obtain x where x: "a = (if appt_id x = i then x\<lparr>status := ''confirmed''\<rparr> else x)"
    by (auto simp only: set_map image_iff)
  show "status a = ''confirmed''"
  proof (cases "appt_id x = i")
    case True
    with x show ?thesis by simp
  next
    case False
    with x i show ?thesis by simp
  qed
qed

lemma complete_twice:
  "map (\<lambda>r. if Some (payment_id r) = pid then r\<lparr>payment_status := Some ''completed''\<rparr> else r)
     (map (\<lambda>r. if Some (payment_id r) = pid then r\<lparr>payment_status := Some ''completed''\<rparr> else r) rows) =
   map (\<lambda>r. if Some (payment_id r) = pid then r\<lparr>payment_status := Some ''completed''\<rparr> else r) rows"
  by (induction rows) auto

text \<open>
  Claim C7, as stated, fails for a body without \<open>payment_id\<close>. The webhook
  \<open>{status: "completed", order_id: "appointment_42"}\<close> makes the handler bind
  \<open>undefined\<close> in the \<open>UPDATE\<close> of \<open>payments\<close>, which runs first; the driver refuses it,
  the handler answers 500 and appointment 42 keeps its status \<open>cancelled\<close>.
\<close>

theorem C7_webhook_without_payment_id:
  "post_payments_ziina_webhook decimal_eq example_pay_db
     \<lparr>w_payment_id = Undefined, w_status = Val ''completed'',
      w_order_id = Val ''appointment_42''\<rparr> =
     (example_pay_db, 500, ''Internal server error'') \<and>
   appointments example_pay_db = [appointment_4, appointment_42] \<and>
   appt_id appointment_42 = 42 \<and> status appointment_42 = ''cancelled''"
  by (simp add: post_payments_ziina_webhook_def example_pay_db_def appointment_42_def)

text \<open>
  Claim C7, amended. A webhook whose body carries a \<open>payment_id\<close>, \<open>status = "completed"\<close> and
  \<open>order_id = "appointment_<i>"\<close>, with \<open><i>\<close> the decimal text of the id \<open>i\<close> (which
  the engine reads as \<open>i\<close>), is answered with status 200 and sets the status of
  appointment \<open>i\<close> to \<open>confirmed\<close> whatever it was, leaving every other appointment
  as it is; delivering the same webhook again changes nothing.
\<close>

theorem C7_completed_webhook_confirms_appointment:
  assumes eq: "\<forall>k. sql_eq k (decimal i) = (k = i)"
    and pid: "defined pid"
  shows "let body = \<lparr>w_payment_id = pid, w_status = Val ''completed'',
                     w_order_id = Val (''appointment_'' @ decimal i)\<rparr>;
             (db1, reply1) = post_payments_ziina_webhook sql_eq db body;
             (db2, reply2) = post_payments_ziina_webhook sql_eq db1 body
         in reply1 = (200, ''Webhook processed successfully'') \<and>
            appointments db1 =
              map (\<lambda>a. if appt_id a = i then a\<lparr>status := ''confirmed''\<rparr> else a) (appointments db) \<and>
            (\<forall>a \<in> set (appointments db1). appt_id a = i \<longrightarrow> status a = ''confirmed'') \<and>
            reply2 = (200, ''Webhook processed successfully'') \<and> db2 = db1"
proof -
  let ?body = "\<lparr>w_payment_id = pid, w_status = Val ''completed'',
                     w_order_id = Val (''appointment_'' @ decimal i)\<rparr>"
  let ?confirm = "map (\<lambda>a. if appt_id a = i then a\<lparr>status := ''confirmed''\<rparr> else a)"
  let ?complete = "map (\<lambda>r. if Some (payment_id r) = sql_value pid
                            then r\<lparr>payment_status := Some ''completed''\<rparr> else r)"
  have target: "js_replace ''appointment_'' [] (''appointment_'' @ decimal i) = decimal i"
    by (rule js_replace_prefix) simp
  have step: "post_payments_ziina_webhook sql_eq d ?body =
      (d\<lparr>payments := ?complete (payments d), appointments := ?confirm (appointments d)\<rparr>,
       200, ''Webhook processed successfully'')" for d
  proof -
    have ne: "''appointment_'' @ decimal i \<noteq> []" by simp
    have c: "update_appointment_status sql_eq (appointments d) ''confirmed'' (decimal i) =
        ?confirm (appointments d)"
      using confirm_by_decimal [where sql_eq = sql_eq and i = i and rows = "appointments d"] eq
      by blast
    show ?thesis
      unfolding webhook_completed [OF pid ne] target c by (rule refl)
  qed
  let ?db1 = "db\<lparr>payments := ?complete (payments db), appointments := ?confirm (appointments db)\<rparr>"
  have again: "?db1\<lparr>payments := ?complete (payments ?db1),
                     appointments := ?confirm (appointments ?db1)\<rparr> = ?db1"
    by (simp add: confirm_twice complete_twice)
  have sel: "appointments ?db1 = ?confirm (appointments db)"
    by simp
  have confirmed: "\<forall>a \<in> set (appointments ?db1). appt_id a = i \<longrightarrow> status a = ''confirmed''"
    unfolding sel by (rule confirmed_after)
  show ?thesis
    unfolding Let_def step prod.case again
    by (intro conjI refl sel confirmed)
qed

theorem C7_completed_webhook_confirms_appointment_witness:
  "(\<forall>k. decimal_eq k (decimal 42) = (k = 42)) \<and> defined (Val ''pi_1'' :: string js) \<and>
   post_payments_ziina_webhook decimal_eq example_pay_db (completed_webhook ''appointment_42'') =
     (\<lparr>payments = [\<lparr>payment_id = ''pi_1'', payment_status = Some ''completed''\<rparr>],
       appointments = [appointment_4, appointment_42\<lparr>status := ''confirmed''\<rparr>]\<rparr>,
      200, ''Webhook processed successfully'') \<and>
   status appointment_42 = ''cancelled''"
proof -
  let ?body = "\<lparr>w_payment_id = Val ''pi_1'', w_status = Val ''completed'',
                w_order_id = Val (''appointment_'' @ decimal 42)\<rparr>"
  have eq: "\<forall>k. decimal_eq k (decimal 42) = (k = 42)"
    by (simp add: decimal_eq_decimal)
  have pid: "defined (Val ''pi_1'' :: string js)"
    by simp
  have d: "decimal 42 = ''42''"
    by (simp add: decimal.simps digit_char_def)
  note t = C7_completed_webhook_confirms_appointment
    [where sql_eq = decimal_eq and i = 42 and pid = "Val ''pi_1''" and db = example_pay_db,
     OF eq pid, unfolded Let_def case_prod_beta]
  from t have a: "appointments (fst (post_payments_ziina_webhook decimal_eq example_pay_db ?body)) =
      map (\<lambda>a. if appt_id a = 42 then a\<lparr>status := ''confirmed''\<rparr> else a)
        (appointments example_pay_db)"
    by (elim conjE)
  from t have r: "snd (post_payments_ziina_webhook decimal_eq example_pay_db ?body) =
      (200, ''Webhook processed successfully'')"
    by (elim conjE)
  have b: "completed_webhook ''appointment_42'' = ?body"
    by (simp add: completed_webhook_def d)
  have p: "payments (fst (post_payments_ziina_webhook decimal_eq example_pay_db ?body)) =
        [\<lparr>payment_id = ''pi_1'', payment_status = Some ''completed''\<rparr>]"
    by (simp add: webhook_completed example_pay_db_def)
  have a': "appointments (fst (post_payments_ziina_webhook decimal_eq example_pay_db ?body)) =
      [appointment_4, appointment_42\<lparr>status := ''confirmed''\<rparr>]"
    unfolding a by (simp add: example_pay_db_def appointment_4_def appointment_42_def)
  have "post_payments_ziina_webhook decimal_eq example_pay_db ?body =
     (\<lparr>payments = [\<lparr>payment_id = ''pi_1'', payment_status = Some ''completed''\<rparr>],
       appointments = [appointment_4, appointment_42\<lparr>status := ''confirmed''\<rparr>]\<rparr>,
      200, ''Webhook processed successfully'')"
    using a' p r by (cases "post_payments_ziina_webhook decimal_eq example_pay_db ?body") auto
  then show ?thesis
    unfolding b using eq by (simp add: appointment_42_def)
qed

text \<open>
  Claim C10, as stated, fails: \<open>replace\<close> removes the first occurrence of
  \<open>appointment_\<close> wherever it stands. The order id \<open>4appointment_2\<close> has no such
  prefix, yet the handler confirms with the id text \<open>42\<close> and not with the entire order
  id: appointment 42 becomes \<open>confirmed\<close>, which an update with \<open>4appointment_2\<close> as the
  id would not do.
\<close>

theorem C10_inner_occurrence_is_removed:
  "\<not> startsWith ''4appointment_2'' ''appointment_'' \<and>
   js_replace ''appointment_'' [] ''4appointment_2'' = ''42'' \<and>
   appointments (fst (post_payments_ziina_webhook decimal_eq example_pay_db
                        (completed_webhook ''4appointment_2''))) =
     [appointment_4, appointment_42\<lparr>status := ''confirmed''\<rparr>] \<and>
   update_appointment_status decimal_eq (appointments example_pay_db) ''confirmed''
     ''4appointment_2'' = [appointment_4, appointment_42] \<and>
   appointment_42\<lparr>status := ''confirmed''\<rparr> \<noteq> appointment_42"
  by (simp add: js_replace_def completed_webhook_def webhook_completed example_pay_db_def
      update_appointment_status_def decimal_eq_def decimal.simps digit_char_def
      appointment_4_def appointment_42_def)

text \<open>
  Claim C10, amended. For a webhook that carries a \<open>payment_id\<close>, \<open>status = "completed"\<close>
  and a non-empty \<open>order_id\<close> in which \<open>appointment_\<close> does not occur, the
  replacement changes nothing and the handler runs the confirmation update with the
  entire \<open>order_id\<close> as the id: the confirmation is not restricted to order ids of the
  form \<open>appointment_<id>\<close>.
\<close>

theorem C10_unprefixed_order_id_is_the_id:
  assumes "defined pid" and "order_id \<noteq> []"
    and "break_at ''appointment_'' order_id = None"
  shows "js_replace ''appointment_'' [] order_id = order_id \<and>
         post_payments_ziina_webhook sql_eq db
           \<lparr>w_payment_id = pid, w_status = Val ''completed'', w_order_id = Val order_id\<rparr> =
         (db\<lparr>payments := map (\<lambda>r. if Some (payment_id r) = sql_value pid
                                   then r\<lparr>payment_status := Some ''completed''\<rparr> else r)
                             (payments db),
             appointments :=
               update_appointment_status sql_eq (appointments db) ''confirmed'' order_id\<rparr>,
          200, ''Webhook processed successfully'')"
  using assms webhook_completed [of pid order_id sql_eq db]
  by (simp add: js_replace_absent)

theorem C10_unprefixed_order_id_is_the_id_witness:
  "defined (Val ''pi_1'' :: string js) \<and> break_at ''appointment_'' ''42'' = None \<and>
   post_payments_ziina_webhook decimal_eq example_pay_db (completed_webhook ''42'') =
     (\<lparr>payments = [\<lparr>payment_id = ''pi_1'', payment_status = Some ''completed''\<rparr>],
       appointments = [appointment_4, appointment_42\<lparr>status := ''confirmed''\<rparr>]\<rparr>,
      200, ''Webhook processed successfully'')"
proof -
  have b: "break_at ''appointment_'' ''42'' = None" by simp
  have "post_payments_ziina_webhook decimal_eq example_pay_db (completed_webhook ''42'') =
     (example_pay_db
        \<lparr>payments := map (\<lambda>r. if Some (payment_id r) = sql_value (Val ''pi_1'')
                                   then r\<lparr>payment_status := Some ''completed''\<rparr> else r)
                             (payments example_pay_db),
         appointments :=
           update_appointment_status decimal_eq (appointments example_pay_db) ''confirmed'' ''42''\<rparr>,
      200, ''Webhook processed successfully'')"
    using C10_unprefixed_order_id_is_the_id [of "Val ''pi_1''" "''42''" decimal_eq example_pay_db] b
    by (simp add: completed_webhook_def)
  then show ?thesis
    using b
    by (simp add: example_pay_db_def update_appointment_status_def decimal_eq_def decimal.simps
        digit_char_def appointment_4_def appointment_42_def)
qed

lemma field_clause_falsy: "\<not> truthy v \<Longrightarrow> field_clause column v = ([], [])"
  by (cases v) (simp_all add: field_clause_def)

lemma malformed_update: "parse_update ''UPDATE appointments SE WHERE id = ? AND user_id = ?'' = None"
  by (simp add: parse_update_def)

text \<open>
  Claim C9. For an appointment owned by the caller and a patch in which none of
  \<open>status\<close>, \<open>appointment_date\<close>, \<open>appointment_time\<close> is given (absent, \<open>null\<close> or
  empty), the statement text is \<open>UPDATE appointments SE WHERE id = ? AND user_id = ?\<close>,
  which is not a statement; the request is answered with status 500 and the table is
  left as it was.
\<close>

theorem C9_empty_patch_is_a_server_error:
  assumes owned: "\<exists>a \<in> set rows. sql_eq (appt_id a) appointment \<and> user_id a = user"
    and none: "\<not> truthy (p_status body)" "\<not> truthy (p_appointment_date body)"
      "\<not> truthy (p_appointment_time body)"
  shows "updateQuery body = ''UPDATE appointments SE WHERE id = ? AND user_id = ?'' \<and>
         parse_update (updateQuery body) = None \<and>
         put_user_appointments sql_eq to_date to_time rows appointment user body =
           (rows, 500, ''Server error'')"
proof -
  have q: "updateQuery body = ''UPDATE appointments SE WHERE id = ? AND user_id = ?''"
    using none by (simp add: updateQuery_def field_clause_falsy slice_end_def)
  from owned have mine: "filter (\<lambda>a. sql_eq (appt_id a) appointment \<and> user_id a = user) rows \<noteq> []"
    by (auto simp: filter_empty_conv)
  show ?thesis
    using mine by (simp add: put_user_appointments_def Let_def q malformed_update)
qed

theorem C9_empty_patch_is_a_server_error_witness:
  "decimal_eq (appt_id appointment_42) ''42'' \<and> user_id appointment_42 = 7 \<and>
   \<not> truthy (p_status empty_patch) \<and>
   updateQuery empty_patch = ''UPDATE appointments SE WHERE id = ? AND user_id = ?'' \<and>
   put_user_appointments decimal_eq iso_date sql_time [appointment_4, appointment_42] ''42'' 7
     empty_patch = ([appointment_4, appointment_42], 500, ''Server error'')"
proof -
  have owned: "\<exists>a \<in> set [appointment_4, appointment_42]. decimal_eq (appt_id a) ''42'' \<and> user_id a = 7"
    by (simp add: decimal_eq_def decimal.simps digit_char_def appointment_42_def)
  show ?thesis
    using C9_empty_patch_is_a_server_error
      [where rows = "[appointment_4, appointment_42]" and sql_eq = decimal_eq
         and appointment = "''42''" and user = 7 and body = empty_patch
         and to_date = iso_date and to_time = sql_time] owned
    by (simp add: empty_patch_def decimal_eq_def decimal.simps digit_char_def appointment_42_def)
qed

section \<open>Properties of the appointment date round trip\<close>

lemma iso_date_2025_03_10: "iso_date ''2025-03-10'' = Some (2025, 3, 10)"
  by (simp add: iso_date_def is_digit_def digits_val_def digit_val_def)

lemma valid_2025_03_10: "valid_date (2025, 3, 10)"
  by (simp add: valid_date_def days_in_month_def)

lemma day_number_2025_03_10: "days_from_civil 2025 3 10 = 20157"
  by code_simp

lemma getTime_2025_03_10: "Date_getTime other ''2025-03-10'' = Some 1741564800000"
  by (simp add: Date_getTime_def iso_date_2025_03_10 valid_2025_03_10 day_number_2025_03_10
      ms_per_day_def)

lemma civil_20157: "civil_from_days 20157 = (2025, 3, 10)"
  by code_simp

lemma civil_20156: "civil_from_days 20156 = (2025, 3, 9)"
  by code_simp

lemma decimal_values:
  "decimal 2025 = ''2025''" "decimal 3 = ''3''" "decimal 10 = ''10''" "decimal 9 = ''9''"
  "decimal 0 = ''0''" "decimal 20 = ''20''" "decimal 5 = ''5''"
  by (simp_all add: decimal.simps digit_char_def)

lemma pad_values:
  "padStart0 4 ''2025'' = ''2025''" "padStart0 2 ''3'' = ''03''" "padStart0 2 ''10'' = ''10''"
  "padStart0 2 ''9'' = ''09''" "padStart0 2 ''0'' = ''00''" "padStart0 3 ''0'' = ''000''"
  "padStart0 2 ''20'' = ''20''" "padStart0 2 ''5'' = ''05''"
  by (simp_all add: padStart0_def eval_nat_numeral)

lemma iso_midnight: "toISOString 1741564800000 = ''2025-03-10T00:00:00.000Z''"
proof -
  have "(1741564800000 :: int) div ms_per_day = 20157" "(1741564800000 :: int) mod ms_per_day = 0"
    by (simp_all add: ms_per_day_def)
  then show ?thesis
    by (simp add: toISOString_def civil_20157 decimal_values pad_values)
qed

lemma formattedDate_2025_03_10: "formattedDate other ''2025-03-10'' = Inr ''2025-03-10''"
  by (simp add: formattedDate_def getTime_2025_03_10 iso_midnight js_split.simps)

lemma driver_2025_03_10: "driver_date zone (2025, 3, 10) = 1741564800000 - zone * 60000"
  by (simp add: driver_date_def day_number_2025_03_10 ms_per_day_def)

lemma json_zone_240: "json_appointment_date 240 (2025, 3, 10) = ''2025-03-09T20:00:00.000Z''"
proof -
  have "(1741564800000 - 240 * 60000 :: int) div ms_per_day = 20156"
    "(1741564800000 - 240 * 60000 :: int) mod ms_per_day = 72000000"
    by (simp_all add: ms_per_day_def)
  then show ?thesis
    by (simp add: json_appointment_date_def driver_2025_03_10 toISOString_def civil_20156
        decimal_values pad_values)
qed

lemma json_zone_0: "json_appointment_date 0 (2025, 3, 10) = ''2025-03-10T00:00:00.000Z''"
  by (simp add: json_appointment_date_def driver_2025_03_10 iso_midnight)

lemma div_in_day: "0 \<le> r \<Longrightarrow> r < b \<Longrightarrow> (r + q * b) div b = (q :: int)"
  by simp

lemma east_of_utc:
  assumes "0 < zone" "zone \<le> 1440"
  shows "(1741564800000 - zone * 60000) div ms_per_day = 20156"
proof -
  have "1741564800000 - zone * 60000 = (86400000 - zone * 60000) + 20156 * 86400000"
    by simp
  moreover have "0 \<le> 86400000 - zone * 60000" "86400000 - zone * 60000 < 86400000"
    using assms by simp_all
  ultimately show ?thesis
    unfolding ms_per_day_def using div_in_day [of "86400000 - zone * 60000" 86400000 20156]
    by simp
qed

lemma west_of_utc:
  assumes "- 1440 < zone" "zone \<le> 0"
  shows "(1741564800000 - zone * 60000) div ms_per_day = 20157"
proof -
  have "1741564800000 - zone * 60000 = (- zone * 60000) + 20157 * 86400000"
    by simp
  moreover have "0 \<le> - zone * 60000" "- zone * 60000 < 86400000"
    using assms by simp_all
  ultimately show ?thesis
    unfolding ms_per_day_def using div_in_day [of "- zone * 60000" 86400000 20157]
    by simp
qed

lemma read_back_east:
  assumes "0 < zone" "zone \<le> 1440"
  shows "take 10 (json_appointment_date zone (2025, 3, 10)) = ''2025-03-09''"
  by (simp add: json_appointment_date_def driver_2025_03_10 toISOString_def
      east_of_utc [OF assms] civil_20156 decimal_values pad_values Let_def)

lemma read_back_west:
  assumes "- 1440 < zone" "zone \<le> 0"
  shows "take 10 (json_appointment_date zone (2025, 3, 10)) = ''2025-03-10''"
  by (simp add: json_appointment_date_def driver_2025_03_10 toISOString_def
      west_of_utc [OF assms] civil_20157 decimal_values pad_values Let_def)

text \<open>
  Claim C8 (the code departs from it). The write path is independent of the zone:
  \<open>"2025-03-10"\<close> is normalised to \<open>2025-03-10\<close> and stored as that \<open>DATE\<close>. The read
  path is not: on a server in the zone UTC+04:00 the appointment is returned with
  \<open>appointment_date = "2025-03-09T20:00:00.000Z"\<close>, whose calendar date is 9 March; on a
  server in UTC it is \<open>"2025-03-10T00:00:00.000Z"\<close>. By \<open>read_back_east\<close> and
  \<open>read_back_west\<close> the date part is 9 March in every zone east of UTC and 10 March in
  UTC and west of it.
\<close>

theorem C8_read_back_depends_on_zone:
  "formattedDate other ''2025-03-10'' = Inr ''2025-03-10'' \<and>
   iso_date ''2025-03-10'' = Some (2025, 3, 10) \<and>
   write_then_read_date other 240 ''2025-03-10'' = Inr ''2025-03-09T20:00:00.000Z'' \<and>
   write_then_read_date other 0 ''2025-03-10'' = Inr ''2025-03-10T00:00:00.000Z''"
  by (simp add: write_then_read_date_def formattedDate_2025_03_10 iso_date_2025_03_10
      json_zone_240 json_zone_0)

end
